theory Spec2Isabelle
  imports Complex_Main
begin

section \<open>Strings\<close>

text \<open>
  JavaScript's \<open>haystack.indexOf (needle)\<close>: the position of the first occurrence,
  or \<open>-1\<close> when there is none.
\<close>

fun indexOf_from :: "nat \<Rightarrow> string \<Rightarrow> string \<Rightarrow> int" where
  "indexOf_from i [] needle = (if needle = [] then int i else - 1)"
| "indexOf_from i (c # cs) needle =
     (if take (length needle) (c # cs) = needle then int i
      else indexOf_from (Suc i) cs needle)"

definition indexOf :: "string \<Rightarrow> string \<Rightarrow> int" where
  "indexOf haystack needle = indexOf_from 0 haystack needle"

text \<open>\<open>text.split (sep)\<close> for a one-character separator.\<close>

fun split_acc :: "char \<Rightarrow> string \<Rightarrow> string \<Rightarrow> string list" where
  "split_acc sep cur [] = [rev cur]"
| "split_acc sep cur (c # cs) =
     (if c = sep then rev cur # split_acc sep [] cs else split_acc sep (c # cur) cs)"

definition split :: "string \<Rightarrow> char \<Rightarrow> string list" where
  "split text sep = split_acc sep [] text"

text \<open>\<open>safeString (array, i)\<close>: the element at index \<open>i\<close>, undefined out of range.\<close>

definition safeIndex :: "'a list \<Rightarrow> int \<Rightarrow> 'a option" where
  "safeIndex xs i = (if 0 \<le> i \<and> i < int (length xs) then Some (xs ! nat i) else None)"

text \<open>\<open>safeValue (obj, key, default)\<close> on a field that may be absent.\<close>

definition safeValue :: "'a option \<Rightarrow> 'a \<Rightarrow> 'a" where
  "safeValue field dflt = (case field of None \<Rightarrow> dflt | Some v \<Rightarrow> v)"

section \<open>Order book sides\<close>

text \<open>
  A price level is the pair \<open>[price, amount]\<close> of the numbers that \<open>safeNumber\<close> reads
  from a delta entry.
\<close>

type_synonym level = "rat \<times> rat"

record bookside =
  descending :: bool
  levels :: "level list"

definition goes_before :: "bool \<Rightarrow> rat \<Rightarrow> rat \<Rightarrow> bool" where
  "goes_before d p q = (if d then q < p else p < q)"

text \<open>
  Modelled from the spec: the classes \<open>OrderBook\<close> and \<open>OrderBookSide\<close> of
  \<open>base/ws/OrderBook.js\<close> and \<open>base/ws/OrderBookSide.js\<close> (\<open>store\<close>, \<open>storeArray\<close>,
  \<open>reset\<close>, \<open>orderBook ()\<close>) are not among the sources. The spec, section 3 and 4.3:
  each side is a price to amount mapping, bids descending by price and asks ascending, no
  two entries share a price; an amount of zero removes the price level, a nonzero amount
  inserts or replaces.
\<close>

fun store_level :: "bool \<Rightarrow> rat \<Rightarrow> rat \<Rightarrow> level list \<Rightarrow> level list" where
  "store_level d p a [] = (if a = 0 then [] else [(p, a)])"
| "store_level d p a ((q, b) # ls) =
     (if q = p then (if a = 0 then ls else (p, a) # ls)
      else if goes_before d p q then (if a = 0 then (q, b) # ls else (p, a) # (q, b) # ls)
      else (q, b) # store_level d p a ls)"

text \<open>Modelled from the spec: \<open>bookside.store (price, amount)\<close> on the ordered levels of the side.\<close>

definition store :: "bookside \<Rightarrow> rat \<Rightarrow> rat \<Rightarrow> bookside" where
  "store bookside price amount =
     bookside\<lparr>levels := store_level (descending bookside) price amount (levels bookside)\<rparr>"

text \<open>Modelled from the spec: \<open>bookside.storeArray ([price, amount])\<close>.\<close>

definition storeArray :: "bookside \<Rightarrow> level \<Rightarrow> bookside" where
  "storeArray bookside delta = store bookside (fst delta) (snd delta)"

text \<open>\<open>parseBidAsk (delta, 0, 1)\<close>: the price at index 0 and the amount at index 1.\<close>

definition parseBidAsk :: "level \<Rightarrow> level" where
  "parseBidAsk bidask = (fst bidask, snd bidask)"

text \<open>bybit: \<open>handleDelta\<close> and \<open>handleDeltas\<close>.\<close>

definition handleDelta :: "bookside \<Rightarrow> level \<Rightarrow> bookside" where
  "handleDelta bookside delta = storeArray bookside (parseBidAsk delta)"

fun handleDeltas :: "bookside \<Rightarrow> level list \<Rightarrow> bookside" where
  "handleDeltas bookside [] = bookside"
| "handleDeltas bookside (delta # deltas) = handleDeltas (handleDelta bookside delta) deltas"

text \<open>hitbtc (and bingx): \<open>handleDelta\<close> reads the two numbers and calls \<open>store\<close>.\<close>

definition hitbtc_handleDelta :: "bookside \<Rightarrow> level \<Rightarrow> bookside" where
  "hitbtc_handleDelta bookside delta = store bookside (fst delta) (snd delta)"

fun hitbtc_handleDeltas :: "bookside \<Rightarrow> level list \<Rightarrow> bookside" where
  "hitbtc_handleDeltas bookside [] = bookside"
| "hitbtc_handleDeltas bookside (delta # deltas) =
     hitbtc_handleDeltas (hitbtc_handleDelta bookside delta) deltas"

text \<open>The invariant of a side: prices strictly ordered in the side's direction.\<close>

definition side_ok :: "bookside \<Rightarrow> bool" where
  "side_ok bookside = sorted_wrt (goes_before (descending bookside)) (map fst (levels bookside))"

section \<open>Order books\<close>

text \<open>
  The field \<open>datetime\<close> is always \<open>iso8601 (timestamp)\<close> and is left out.
\<close>

record orderbook =
  asks :: bookside
  bids :: bookside
  timestamp :: "int option"
  nonce :: "int option"
  symbol :: "string option"

text \<open>Modelled from the spec: \<open>this.orderBook ()\<close>, a book with two empty sides.\<close>

definition orderBook :: orderbook where
  "orderBook = \<lparr>asks = \<lparr>descending = False, levels = []\<rparr>,
                bids = \<lparr>descending = True, levels = []\<rparr>,
                timestamp = None, nonce = None, symbol = None\<rparr>"

record parsed_book =
  snap_symbol :: string
  snap_bids :: "level list"
  snap_asks :: "level list"
  snap_timestamp :: "int option"
  snap_nonce :: "int option"

text \<open>
  Modelled from the spec: \<open>reset (snapshot)\<close> discards any prior state and builds both
  sides from the snapshot's bid and ask arrays.
\<close>

definition reset :: "orderbook \<Rightarrow> parsed_book \<Rightarrow> orderbook" where
  "reset ob snapshot =
     \<lparr>asks = foldl storeArray ((asks ob)\<lparr>levels := []\<rparr>) (snap_asks snapshot),
      bids = foldl storeArray ((bids ob)\<lparr>levels := []\<rparr>) (snap_bids snapshot),
      timestamp = snap_timestamp snapshot,
      nonce = snap_nonce snapshot,
      symbol = Some (snap_symbol snapshot)\<rparr>"

section \<open>The connection's table of pending futures\<close>

text \<open>
  An exception carries its class and its message. \<open>TableError\<close> is an exception class
  taken from the adapter's \<open>exceptions\<close> table, with the flag telling whether that class
  derives from \<open>AuthenticationError\<close>.
\<close>

datatype exc =
    AuthenticationError string
  | ExchangeError string
  | TypeError string
  | TableError string bool string

fun instanceof_AuthenticationError :: "exc \<Rightarrow> bool" where
  "instanceof_AuthenticationError (AuthenticationError m) = True"
| "instanceof_AuthenticationError (ExchangeError m) = False"
| "instanceof_AuthenticationError (TypeError m) = False"
| "instanceof_AuthenticationError (TableError cls derived m) = derived"

datatype 'v outcome = Pending | Resolved 'v | Rejected exc

text \<open>An outbound frame: a JSON object of string fields and string arrays.\<close>

datatype jvalue = JStr string | JInt int | JArr "string list" | JObj "(string \<times> jvalue) list"

type_synonym frame = "(string \<times> jvalue) list"

text \<open>
  Modelled from the spec: the class \<open>Client\<close> of \<open>base/ws/Client.js\<close> is not among the
  sources. The spec, section 3: per connection a map from message hash to the pending
  future of the callers awaiting that hash, and a map of subscriptions. A future is named
  by its index in \<open>settled\<close>, which holds the state of every future handed out.
\<close>

record 'v client =
  url :: string
  futures :: "(string \<times> nat) list"
  subscriptions :: "string \<rightharpoonup> bool"
  settled :: "'v outcome list"
  outbox :: "frame list"
  lastPong :: "int option"

text \<open>
  Modelled from the spec: \<open>client.future (messageHash)\<close>, the pending future of the hash,
  created when absent.
\<close>

definition future :: "'v client \<Rightarrow> string \<Rightarrow> nat \<times> 'v client" where
  "future client messageHash =
     (case map_of (futures client) messageHash of
        Some f \<Rightarrow> (f, client)
      | None \<Rightarrow>
          (length (settled client),
           client\<lparr>futures := futures client @ [(messageHash, length (settled client))],
                  settled := settled client @ [Pending]\<rparr>))"

text \<open>
  Modelled from the spec: a future is settled once; resolving or rejecting a settled
  future changes nothing.
\<close>

definition settle :: "'v outcome \<Rightarrow> nat \<Rightarrow> 'v outcome list \<Rightarrow> 'v outcome list" where
  "settle result f states =
     (if f < length states \<and> states ! f = Pending then states[f := result] else states)"

text \<open>
  Modelled from the spec: \<open>client.resolve (result, messageHash)\<close> fulfils the future of the
  hash and removes it
  from the table, so that a future registered later awaits the next resolution.
\<close>

definition resolve :: "'v client \<Rightarrow> 'v \<Rightarrow> string \<Rightarrow> 'v client" where
  "resolve client result messageHash =
     (case map_of (futures client) messageHash of
        None \<Rightarrow> client
      | Some f \<Rightarrow>
          client\<lparr>settled := settle (Resolved result) f (settled client),
                 futures := filter (\<lambda>e. fst e \<noteq> messageHash) (futures client)\<rparr>)"

text \<open>
  Modelled from the spec: \<open>client.reject (error, messageHash)\<close> rejects the future of the
  hash and removes it from the table;
  \<open>client.reject (error)\<close>, without a hash, is the rejection of every pending future
  registered on the connection (the spec, section 4.1).
\<close>

definition reject :: "'v client \<Rightarrow> exc \<Rightarrow> string option \<Rightarrow> 'v client" where
  "reject client error messageHash =
     (case messageHash of
        Some h \<Rightarrow>
          (case map_of (futures client) h of
             None \<Rightarrow> client
           | Some f \<Rightarrow>
               client\<lparr>settled := settle (Rejected error) f (settled client),
                      futures := filter (\<lambda>e. fst e \<noteq> h) (futures client)\<rparr>)
      | None \<Rightarrow>
          client\<lparr>settled := foldl (\<lambda>states e. settle (Rejected error) (snd e) states)
                               (settled client) (futures client),
                 futures := []\<rparr>)"

section \<open>bybit: handleOrderBook\<close>

record ob_data =
  data_s :: "string option"
  data_b :: "level list option"
  data_a :: "level list option"
  data_u :: "int option"
  data_seq :: "int option"

record ob_message =
  msg_topic :: "string option"
  msg_type :: "string option"
  msg_ts :: "int option"
  msg_data :: ob_data

text \<open>
  Modelled from the spec: \<open>parseOrderBook (data, symbol, timestamp, 'b', 'a')\<close> of the base
  class is not among the sources. It is told the keys of the bid and ask arrays only; a
  caller that wants a nonce on the result sets it afterwards, as \<open>fetchOrderBook\<close> of
  mexc does.
\<close>

definition parseOrderBook :: "ob_data \<Rightarrow> string \<Rightarrow> int option \<Rightarrow> parsed_book" where
  "parseOrderBook data symb ts =
     \<lparr>snap_symbol = symb,
      snap_bids = safeValue (data_b data) [],
      snap_asks = safeValue (data_a data) [],
      snap_timestamp = ts,
      snap_nonce = None\<rparr>"

text \<open>
  \<open>safeMarket\<close> stands for \<open>this.safeMarket (marketId, undefined, undefined,
  marketType)['symbol']\<close>, the market lookup of the base class. The stored book and the
  resolved value are one object in the source; here the resolved value is the book as it
  is at the resolution.
\<close>

definition handleOrderBook ::
  "(string option \<Rightarrow> string \<Rightarrow> string) \<Rightarrow> (string \<rightharpoonup> orderbook) \<Rightarrow> orderbook client \<Rightarrow>
     ob_message \<Rightarrow> (string \<rightharpoonup> orderbook) \<times> orderbook client" where
  "handleOrderBook safeMarket orderbooks client message =
     (let isSpot = (indexOf (url client) ''spot'' \<ge> 0);
          isSnapshot = (msg_type message = Some ''snapshot'');
          data = msg_data message;
          marketId = data_s data;
          marketType = (if isSpot then ''spot'' else ''contract'');
          symb = safeMarket marketId marketType;
          ts = msg_ts message;
          orderbook = (case orderbooks symb of None \<Rightarrow> orderBook | Some ob \<Rightarrow> ob);
          orderbook' =
            (if isSnapshot then reset orderbook (parseOrderBook data symb ts)
             else orderbook
                    \<lparr>asks := handleDeltas (asks orderbook) (safeValue (data_a data) []),
                     bids := handleDeltas (bids orderbook) (safeValue (data_b data) []),
                     timestamp := ts\<rparr>);
          messageHash = ''orderbook'' @ '':'' @ symb
      in (orderbooks(symb \<mapsto> orderbook'), resolve client orderbook' messageHash))"

text \<open>The effect of one \<open>[price, amount]\<close> pair on a side read as a price to amount map.\<close>

definition apply_pair :: "(rat \<rightharpoonup> rat) \<Rightarrow> level \<Rightarrow> (rat \<rightharpoonup> rat)" where
  "apply_pair m delta = (if snd delta = 0 then m(fst delta := None) else m(fst delta \<mapsto> snd delta))"

text \<open>The symbol and the message hash that \<open>handleOrderBook\<close> computes for a message.\<close>

definition book_symbol ::
  "(string option \<Rightarrow> string \<Rightarrow> string) \<Rightarrow> 'v client \<Rightarrow> ob_message \<Rightarrow> string" where
  "book_symbol safeMarket client message =
     safeMarket (data_s (msg_data message))
       (if indexOf (url client) ''spot'' \<ge> 0 then ''spot'' else ''contract'')"

text \<open>The book that a delta message leaves: its pairs merged into the given book.\<close>

definition merged_book :: "orderbook \<Rightarrow> ob_message \<Rightarrow> orderbook" where
  "merged_book ob message =
     ob\<lparr>asks := handleDeltas (asks ob) (safeValue (data_a (msg_data message)) []),
        bids := handleDeltas (bids ob) (safeValue (data_b (msg_data message)) []),
        timestamp := msg_ts message\<rparr>"

text \<open>The book that a snapshot message leaves, built from the message alone.\<close>

definition rebuilt_book :: "string \<Rightarrow> ob_message \<Rightarrow> orderbook" where
  "rebuilt_book symb message =
     \<lparr>asks = handleDeltas \<lparr>descending = False, levels = []\<rparr>
               (safeValue (data_a (msg_data message)) []),
      bids = handleDeltas \<lparr>descending = True, levels = []\<rparr>
               (safeValue (data_b (msg_data message)) []),
      timestamp = msg_ts message,
      nonce = None,
      symbol = Some symb\<rparr>"

text \<open>The invariant of a stored book: asks ascending, bids descending.\<close>

definition book_ok :: "orderbook \<Rightarrow> bool" where
  "book_ok ob = (\<not> descending (asks ob) \<and> descending (bids ob)
                 \<and> side_ok (asks ob) \<and> side_ok (bids ob))"

text \<open>The read loop of one connection: messages are handled in arrival order.\<close>

fun handleOrderBooks ::
  "(string option \<Rightarrow> string \<Rightarrow> string) \<Rightarrow> (string \<rightharpoonup> orderbook) \<times> orderbook client \<Rightarrow>
     ob_message list \<Rightarrow> (string \<rightharpoonup> orderbook) \<times> orderbook client" where
  "handleOrderBooks safeMarket state [] = state"
| "handleOrderBooks safeMarket state (message # messages) =
     handleOrderBooks safeMarket
       (handleOrderBook safeMarket (fst state) (snd state) message) messages"

text \<open>Example data: one market, a public spot connection, and order book messages.\<close>

definition example_safeMarket :: "string option \<Rightarrow> string \<Rightarrow> string" where
  "example_safeMarket marketId marketType =
     (if marketId = Some ''BTCUSDT'' then ''BTC/USDT'' else safeValue marketId [])"

definition example_client :: "'v client" where
  "example_client = \<lparr>url = ''wss://stream.bybit.com/v5/public/spot'', futures = [],
                      subscriptions = Map.empty, settled = [], outbox = [],
                      lastPong = None\<rparr>"

definition book_message ::
  "string \<Rightarrow> int \<Rightarrow> level list \<Rightarrow> level list \<Rightarrow> int \<Rightarrow> ob_message" where
  "book_message kind ts bs as sq =
     \<lparr>msg_topic = Some ''orderbook.50.BTCUSDT'', msg_type = Some kind, msg_ts = Some ts,
      msg_data = \<lparr>data_s = Some ''BTCUSDT'', data_b = Some bs, data_a = Some as,
                  data_u = Some sq, data_seq = Some sq\<rparr>\<rparr>"

definition example_book :: orderbook where
  "example_book =
     \<lparr>asks = \<lparr>descending = False, levels = [(101, 1), (102, 3)]\<rparr>,
      bids = \<lparr>descending = True, levels = [(100, 1), (99, 2)]\<rparr>,
      timestamp = Some 1000, nonce = None, symbol = Some ''BTC/USDT''\<rparr>"

section \<open>Bounded caches\<close>

text \<open>
  Modelled from the spec: the classes \<open>ArrayCache\<close>, \<open>ArrayCacheByTimestamp\<close> and
  \<open>ArrayCacheBySymbolById\<close> of \<open>base/ws/Cache.js\<close> are not among the sources. The spec,
  section 4.4: \<open>append (item)\<close> for trades always appends and evicts the oldest on
  overflow; \<open>upsert (item, key)\<close> for orders and positions replaces the existing entry
  sharing the key, else appends, then evicts the oldest on overflow; for candles,
  \<open>appendOrReplaceLast (candle)\<close> compares the new candle's timestamp to the last stored
  candle's timestamp: equal timestamps replace, greater timestamps append (and evict if
  over capacity), lesser timestamps are rejected.
\<close>

record 'a cache =
  maxSize :: nat
  items :: "'a list"

text \<open>Modelled from the spec: \<open>new ArrayCache (limit)\<close>, an empty cache of the given capacity.\<close>

definition ArrayCache :: "nat \<Rightarrow> 'a cache" where
  "ArrayCache limit = \<lparr>maxSize = limit, items = []\<rparr>"

text \<open>Modelled from the spec: eviction drops the oldest entries, those at the front.\<close>

definition evict :: "nat \<Rightarrow> 'a list \<Rightarrow> 'a list" where
  "evict limit xs = drop (length xs - limit) xs"

text \<open>Modelled from the spec: \<open>append (item)\<close> of a trade cache.\<close>

definition cache_append :: "'a cache \<Rightarrow> 'a \<Rightarrow> 'a cache" where
  "cache_append cache item = cache\<lparr>items := evict (maxSize cache) (items cache @ [item])\<rparr>"

text \<open>Modelled from the spec: the entry sharing the key of the item is replaced in place.\<close>

fun replace_key :: "('a \<Rightarrow> 'k) \<Rightarrow> 'a \<Rightarrow> 'a list \<Rightarrow> 'a list" where
  "replace_key key item [] = []"
| "replace_key key item (x # xs) =
     (if key x = key item then item # xs else x # replace_key key item xs)"

text \<open>Modelled from the spec: \<open>new ArrayCacheBySymbolById (limit)\<close>.\<close>

definition ArrayCacheBySymbolById :: "nat \<Rightarrow> 'a cache" where
  "ArrayCacheBySymbolById limit = \<lparr>maxSize = limit, items = []\<rparr>"

text \<open>
  Modelled from the spec: \<open>upsert (item, key)\<close>; the key of an item is its pair of symbol
  and id.
\<close>

definition upsert :: "('a \<Rightarrow> 'k) \<Rightarrow> 'a cache \<Rightarrow> 'a \<Rightarrow> 'a cache" where
  "upsert key cache item =
     (if key item \<in> set (map key (items cache))
      then cache\<lparr>items := evict (maxSize cache) (replace_key key item (items cache))\<rparr>
      else cache_append cache item)"

text \<open>A candle \<open>[timestamp, open, high, low, close, volume]\<close>.\<close>

record ohlcv =
  o_timestamp :: int
  o_open :: "rat option"
  o_high :: "rat option"
  o_low :: "rat option"
  o_close :: "rat option"
  o_volume :: "rat option"

text \<open>Modelled from the spec: \<open>new ArrayCacheByTimestamp (limit)\<close>.\<close>

definition ArrayCacheByTimestamp :: "nat \<Rightarrow> ohlcv cache" where
  "ArrayCacheByTimestamp limit = \<lparr>maxSize = limit, items = []\<rparr>"

text \<open>Modelled from the spec: \<open>appendOrReplaceLast (candle)\<close>, the \<open>append\<close> of a candle cache.\<close>

definition appendOrReplaceLast :: "ohlcv cache \<Rightarrow> ohlcv \<Rightarrow> ohlcv cache" where
  "appendOrReplaceLast cache candle =
     (if items cache = [] then cache_append cache candle
      else if o_timestamp candle = o_timestamp (last (items cache))
        then cache\<lparr>items := butlast (items cache) @ [candle]\<rparr>
      else if o_timestamp (last (items cache)) < o_timestamp candle
        then cache_append cache candle
      else cache)"

section \<open>bybit: handleTrades and handleOHLCV\<close>

text \<open>
  A message of the trade topic: \<open>topic\<close> and the array \<open>data\<close> of raw trades.
  \<open>parseWsTrade\<close> and \<open>safeMarket\<close> are the adapter's parser and the market lookup of the
  base class (the market is named by its symbol); \<open>tradesLimit\<close> is the option of that
  name. \<open>topic.split\<close> on an undefined topic is a \<open>TypeError\<close>.
\<close>

record 'r trades_message =
  tm_topic :: "string option"
  tm_data :: "'r list"

definition handleTrades ::
  "('r \<Rightarrow> string \<Rightarrow> 't) \<Rightarrow> (string option \<Rightarrow> string \<Rightarrow> string) \<Rightarrow> nat option \<Rightarrow>
     (string \<rightharpoonup> 't cache) \<Rightarrow> 't cache client \<Rightarrow> 'r trades_message \<Rightarrow>
     exc + (string \<rightharpoonup> 't cache) \<times> 't cache client" where
  "handleTrades parseWsTrade safeMarket tradesLimit trades client message =
     (case tm_topic message of
        None \<Rightarrow> Inl (TypeError ''Cannot read properties of undefined (reading split)'')
      | Some topic \<Rightarrow>
          (let data = tm_data message;
               parts = split topic CHR ''.'';
               isSpot = (indexOf (url client) ''spot'' \<ge> 0);
               marketType = (if isSpot then ''spot'' else ''contract'');
               marketId = safeIndex parts 1;
               symb = safeMarket marketId marketType;
               stored = (case trades symb of
                           None \<Rightarrow> ArrayCache (safeValue tradesLimit 1000)
                         | Some st \<Rightarrow> st);
               stored' = foldl (\<lambda>st raw. cache_append st (parseWsTrade raw symb)) stored data;
               messageHash = ''trade'' @ '':'' @ symb
           in Inr (trades(symb \<mapsto> stored'), resolve client stored' messageHash)))"

text \<open>A raw candle of the kline topic, and \<open>parseWsOHLCV\<close>.\<close>

record kline =
  k_start :: int
  k_open :: "rat option"
  k_high :: "rat option"
  k_low :: "rat option"
  k_close :: "rat option"
  k_volume :: "rat option"
  k_turnover :: "rat option"

definition parseWsOHLCV :: "kline \<Rightarrow> ohlcv" where
  "parseWsOHLCV k =
     \<lparr>o_timestamp = k_start k, o_open = k_open k, o_high = k_high k, o_low = k_low k,
      o_close = k_close k,
      o_volume = (case k_volume k of Some v \<Rightarrow> Some v | None \<Rightarrow> k_turnover k)\<rparr>"

record kline_message =
  km_topic :: "string option"
  km_data :: "kline list"

text \<open>
  \<open>findTimeframe\<close> is the lookup of the base class from the exchange's timeframe id to
  the unified timeframe; \<open>OHLCVLimit\<close> is the option of that name. The cache is one
  object, stored in \<open>this.ohlcvs\<close> and appended to in place.
\<close>

definition handleOHLCV ::
  "(string option \<Rightarrow> string) \<Rightarrow> (string option \<Rightarrow> string \<Rightarrow> string) \<Rightarrow> nat option \<Rightarrow>
     (string \<rightharpoonup> (string \<rightharpoonup> ohlcv cache)) \<Rightarrow> ohlcv cache client \<Rightarrow> kline_message \<Rightarrow>
     exc + (string \<rightharpoonup> (string \<rightharpoonup> ohlcv cache)) \<times> ohlcv cache client" where
  "handleOHLCV findTimeframe safeMarket OHLCVLimit ohlcvs client message =
     (case km_topic message of
        None \<Rightarrow> Inl (TypeError ''Cannot read properties of undefined (reading split)'')
      | Some topic \<Rightarrow>
          (let data = km_data message;
               topicParts = split topic CHR ''.'';
               topicLength = int (length topicParts);
               timeframeId = safeIndex topicParts 1;
               timeframe = findTimeframe timeframeId;
               marketId = safeIndex topicParts (topicLength - 1);
               isSpot = (indexOf (url client) ''spot'' > - 1);
               marketType = (if isSpot then ''spot'' else ''contract'');
               symb = safeMarket marketId marketType;
               ohlcvsByTimeframe = ohlcvs symb;
               bySymbol = (case ohlcvsByTimeframe of None \<Rightarrow> Map.empty | Some m \<Rightarrow> m);
               stored = (case (case ohlcvsByTimeframe of None \<Rightarrow> None | Some m \<Rightarrow> m timeframe) of
                           None \<Rightarrow> ArrayCacheByTimestamp (safeValue OHLCVLimit 1000)
                         | Some st \<Rightarrow> st);
               stored' = foldl (\<lambda>st raw. appendOrReplaceLast st (parseWsOHLCV raw)) stored data;
               messageHash = ''kline'' @ '':'' @ safeValue timeframeId ''undefined'' @ '':'' @ symb
           in Inr (ohlcvs(symb \<mapsto> bySymbol(timeframe \<mapsto> stored')),
                   resolve client stored' messageHash)))"

section \<open>hitbtc: handleTrades and handleOHLCV\<close>

text \<open>
  The payload \<open>snapshot\<close> or \<open>update\<close> of a message, as the list of its market ids with
  their raw entries, in the order of \<open>Object.keys\<close>. \<open>parseWsTrades\<close> and
  \<open>parseWsOHLCVs\<close> are the parsers of the base class and of the adapter; \<open>safeMarket\<close>
  gives the symbol of a market id.
\<close>

fun hitbtc_handleTrades ::
  "('r \<Rightarrow> string \<Rightarrow> 't list) \<Rightarrow> (string \<Rightarrow> string) \<Rightarrow> nat option \<Rightarrow>
     (string \<rightharpoonup> 't cache) \<times> 't cache client \<Rightarrow> (string \<times> 'r) list \<Rightarrow>
     (string \<rightharpoonup> 't cache) \<times> 't cache client" where
  "hitbtc_handleTrades parseWsTrades safeMarket tradesLimit state [] = state"
| "hitbtc_handleTrades parseWsTrades safeMarket tradesLimit state ((marketId, raw) # rest) =
     (let symb = safeMarket marketId;
          stored = (case fst state symb of
                      None \<Rightarrow> ArrayCache (safeValue tradesLimit 1000)
                    | Some st \<Rightarrow> st);
          stored' = foldl cache_append stored (parseWsTrades raw symb);
          messageHash = ''trades::'' @ symb
      in hitbtc_handleTrades parseWsTrades safeMarket tradesLimit
           ((fst state)(symb \<mapsto> stored'), resolve (snd state) stored' messageHash) rest)"

fun hitbtc_handleOHLCV_loop ::
  "('r \<Rightarrow> string \<Rightarrow> ohlcv list) \<Rightarrow> (string \<Rightarrow> string) \<Rightarrow> nat option \<Rightarrow> string \<Rightarrow> string \<Rightarrow>
     (string \<rightharpoonup> (string \<rightharpoonup> ohlcv cache)) \<times> ohlcv cache client \<Rightarrow> (string \<times> 'r) list \<Rightarrow>
     (string \<rightharpoonup> (string \<rightharpoonup> ohlcv cache)) \<times> ohlcv cache client" where
  "hitbtc_handleOHLCV_loop parseWsOHLCVs safeMarket OHLCVLimit channel timeframe state [] = state"
| "hitbtc_handleOHLCV_loop parseWsOHLCVs safeMarket OHLCVLimit channel timeframe state
       ((marketId, raw) # rest) =
     (let symb = safeMarket marketId;
          bySymbol = (case fst state symb of None \<Rightarrow> Map.empty | Some m \<Rightarrow> m);
          stored = (case bySymbol timeframe of
                      None \<Rightarrow> ArrayCacheByTimestamp (safeValue OHLCVLimit 1000)
                    | Some st \<Rightarrow> st);
          stored' = foldl appendOrReplaceLast stored (parseWsOHLCVs raw symb);
          messageHash = channel @ ''::'' @ symb
      in hitbtc_handleOHLCV_loop parseWsOHLCVs safeMarket OHLCVLimit channel timeframe
           ((fst state)(symb \<mapsto> bySymbol(timeframe \<mapsto> stored')),
            resolve (snd state) stored' messageHash) rest)"

definition hitbtc_handleOHLCV ::
  "('r \<Rightarrow> string \<Rightarrow> ohlcv list) \<Rightarrow> (string \<Rightarrow> string) \<Rightarrow> (string option \<Rightarrow> string) \<Rightarrow> nat option \<Rightarrow>
     (string \<rightharpoonup> (string \<rightharpoonup> ohlcv cache)) \<times> ohlcv cache client \<Rightarrow>
     string option \<Rightarrow> (string \<times> 'r) list \<Rightarrow>
     exc + (string \<rightharpoonup> (string \<rightharpoonup> ohlcv cache)) \<times> ohlcv cache client" where
  "hitbtc_handleOHLCV parseWsOHLCVs safeMarket findTimeframe OHLCVLimit state ch data =
     (case ch of
        None \<Rightarrow> Inl (TypeError ''Cannot read properties of undefined (reading split)'')
      | Some channel \<Rightarrow>
          (let splitChannel = split channel CHR ''/'';
               period = safeIndex splitChannel 1;
               timeframe = findTimeframe period
           in Inr (hitbtc_handleOHLCV_loop parseWsOHLCVs safeMarket OHLCVLimit channel timeframe
                     state data)))"

definition example_trades_message :: "string trades_message" where
  "example_trades_message =
     \<lparr>tm_topic = Some ''publicTrade.BTCUSDT'', tm_data = [''A'', ''B'', ''C'', ''D'']\<rparr>"

text \<open>
  The read loop of one connection on kline messages, in arrival order; an exception
  raised by the handler ends it.
\<close>

fun handleOHLCVs ::
  "(string option \<Rightarrow> string) \<Rightarrow> (string option \<Rightarrow> string \<Rightarrow> string) \<Rightarrow> nat option \<Rightarrow>
     (string \<rightharpoonup> (string \<rightharpoonup> ohlcv cache)) \<times> ohlcv cache client \<Rightarrow> kline_message list \<Rightarrow>
     exc + (string \<rightharpoonup> (string \<rightharpoonup> ohlcv cache)) \<times> ohlcv cache client" where
  "handleOHLCVs findTimeframe safeMarket OHLCVLimit state [] = Inr state"
| "handleOHLCVs findTimeframe safeMarket OHLCVLimit state (message # messages) =
     (case handleOHLCV findTimeframe safeMarket OHLCVLimit (fst state) (snd state) message of
        Inl e \<Rightarrow> Inl e
      | Inr state' \<Rightarrow> handleOHLCVs findTimeframe safeMarket OHLCVLimit state' messages)"

definition example_findTimeframe :: "string option \<Rightarrow> string" where
  "example_findTimeframe timeframeId = (if timeframeId = Some ''5'' \<or> timeframeId = Some ''M5'' then ''5m'' else ''1m'')"

definition example_candle :: "int \<Rightarrow> rat \<Rightarrow> ohlcv" where
  "example_candle ts cl =
     \<lparr>o_timestamp = ts, o_open = Some 9, o_high = Some 13, o_low = Some 8,
      o_close = Some cl, o_volume = Some 2\<rparr>"

definition kline_update :: "int \<Rightarrow> rat \<Rightarrow> kline_message" where
  "kline_update ts cl =
     \<lparr>km_topic = Some ''kline.5.BTCUSDT'',
      km_data = [\<lparr>k_start = ts, k_open = Some 9, k_high = Some 13, k_low = Some 8,
                  k_close = Some cl, k_volume = Some 2, k_turnover = Some 20\<rparr>]\<rparr>"

section \<open>hitbtc: the channel name of watchOrderBook\<close>




section \<open>Subscribing and authenticating\<close>

text \<open>
  Modelled from the spec: \<open>watch (url, messageHash, message, subscribeHash)\<close> of the base
  class is not among the sources. The spec, section 4.2: the call registers a waiter on
  the message hash; when the subscribe hash is already subscribed on the connection no
  frame is sent again, otherwise the subscription is recorded and the frame is sent.
  The client is the connection of the url.
\<close>

definition watch :: "'v client \<Rightarrow> string \<Rightarrow> frame \<Rightarrow> string \<Rightarrow> nat \<times> 'v client" where
  "watch client messageHash message subscribeHash =
     (let (fut, c) = future client messageHash
      in if subscriptions c subscribeHash \<noteq> None then (fut, c)
         else (fut, c\<lparr>subscriptions := (subscriptions c)(subscribeHash \<mapsto> True),
                       outbox := outbox c @ [message]\<rparr>))"

text \<open>\<open>this.extend (a, b)\<close>: the fields of \<open>a\<close>, overridden and followed by those of \<open>b\<close>.\<close>

fun obj_set :: "string \<Rightarrow> jvalue \<Rightarrow> frame \<Rightarrow> frame" where
  "obj_set k v [] = [(k, v)]"
| "obj_set k v ((k', v') # rest) =
     (if k' = k then (k, v) # rest else (k', v') # obj_set k v rest)"

definition extend_object :: "frame \<Rightarrow> frame \<Rightarrow> frame" where
  "extend_object a b = foldl (\<lambda>acc kv. obj_set (fst kv) (snd kv) acc) a b"

record credentials =
  apiKey :: string
  secret :: string

text \<open>
  bybit: \<open>authenticate (url, params)\<close>. \<open>checkRequiredCredentials\<close> is the exception that
  \<open>this.checkRequiredCredentials ()\<close> raises, if any; \<open>hmac\<close> is the hex digest of
  \<open>this.hmac (payload, secret, sha256, 'hex')\<close>; \<open>toString\<close> renders an integer;
  \<open>milliseconds\<close> is the clock at the call.
\<close>

definition auth_request ::
  "(string \<Rightarrow> string \<Rightarrow> string) \<Rightarrow> (int \<Rightarrow> string) \<Rightarrow> credentials \<Rightarrow> int \<Rightarrow> frame" where
  "auth_request hmac toString creds milliseconds =
     (let expiresInt = milliseconds + 10000;
          expires = toString expiresInt;
          path = ''GET/realtime'';
          auth = path @ expires;
          signature = hmac auth (secret creds)
      in [(''op'', JStr ''auth''), (''args'', JArr [apiKey creds, expires, signature])])"

definition authenticate ::
  "exc option \<Rightarrow> (string \<Rightarrow> string \<Rightarrow> string) \<Rightarrow> (int \<Rightarrow> string) \<Rightarrow> credentials \<Rightarrow> frame \<Rightarrow>
     int \<Rightarrow> 'v client \<Rightarrow> exc + nat \<times> 'v client" where
  "authenticate checkRequiredCredentials hmac toString creds params milliseconds client =
     (case checkRequiredCredentials of
        Some e \<Rightarrow> Inl e
      | None \<Rightarrow>
          (let messageHash = ''authenticated'';
               (fut, c) = future client messageHash;
               authenticated = subscriptions c messageHash
           in if authenticated = None
              then (let request = auth_request hmac toString creds milliseconds;
                        message = extend_object request params
                    in Inr (fut, snd (watch c messageHash message messageHash)))
              else Inr (fut, c)))"

text \<open>hitbtc: \<open>authenticate ()\<close>, on the connection of the private url.\<close>

definition login_request ::
  "(string \<Rightarrow> string \<Rightarrow> string) \<Rightarrow> (int \<Rightarrow> string) \<Rightarrow> credentials \<Rightarrow> int \<Rightarrow> frame" where
  "login_request hmac numberToString creds milliseconds =
     (let ts = milliseconds;
          signature = hmac (numberToString ts) (secret creds)
      in [(''method'', JStr ''login''),
          (''params'', JObj [(''type'', JStr ''HS256''), (''api_key'', JStr (apiKey creds)),
                            (''timestamp'', JInt ts), (''signature'', JStr signature)])])"

definition hitbtc_authenticate ::
  "exc option \<Rightarrow> (string \<Rightarrow> string \<Rightarrow> string) \<Rightarrow> (int \<Rightarrow> string) \<Rightarrow> credentials \<Rightarrow>
     int \<Rightarrow> 'v client \<Rightarrow> exc + nat \<times> 'v client" where
  "hitbtc_authenticate checkRequiredCredentials hmac numberToString creds milliseconds client =
     (case checkRequiredCredentials of
        Some e \<Rightarrow> Inl e
      | None \<Rightarrow>
          (let messageHash = ''authenticated'';
               (fut, c) = future client messageHash;
               authenticated = subscriptions c messageHash
           in if authenticated = None
              then (let request = login_request hmac numberToString creds milliseconds
                    in Inr (fut, snd (watch c messageHash request messageHash)))
              else Inr (fut, c)))"

text \<open>
  Calls of \<open>authenticate\<close> one after the other, at the given clock values: the futures
  they return, and the connection after the last.
\<close>

fun authenticate_calls ::
  "(int \<Rightarrow> 'v client \<Rightarrow> exc + nat \<times> 'v client) \<Rightarrow> int list \<Rightarrow> 'v client \<Rightarrow>
     (exc + nat) list \<times> 'v client" where
  "authenticate_calls auth [] client = ([], client)"
| "authenticate_calls auth (t # ts) client =
     (case auth t client of
        Inl e \<Rightarrow> (let (rs, c) = authenticate_calls auth ts client in (Inl e # rs, c))
      | Inr (fut, c') \<Rightarrow> (let (rs, c) = authenticate_calls auth ts c' in (Inr fut # rs, c)))"

section \<open>bybit: control messages\<close>

text \<open>
  The fields of an inbound message that the error handler, the router and the
  authentication handler read; \<open>m_request_op\<close> is \<open>message['request']['op']\<close>.
\<close>

record ws_message =
  m_code :: "string option"
  m_ret_code :: "string option"
  m_success :: "bool option"
  m_ret_msg :: "string option"
  m_request_op :: "string option"
  m_op :: "string option"
  m_type :: "string option"
  m_topic :: "string option"
  m_event :: "string option"
  m_pong :: "int option"

text \<open>
  The exception raised in the \<open>try\<close> block of \<open>handleErrorMessage\<close>, if any. \<open>exact\<close> is
  the table \<open>this.exceptions['exact']\<close>: the class registered for a code, with the flag
  telling whether it derives from \<open>AuthenticationError\<close>; \<open>json\<close> renders the message.
\<close>

definition handleErrorMessage_raises ::
  "string \<Rightarrow> (ws_message \<Rightarrow> string) \<Rightarrow> (string \<rightharpoonup> string \<times> bool) \<Rightarrow> ws_message \<Rightarrow> exc option" where
  "handleErrorMessage_raises ident json exact message =
     (let code = (case m_code message of Some c \<Rightarrow> Some c | None \<Rightarrow> m_ret_code message);
          matched = (case code of
                       None \<Rightarrow> None
                     | Some cd \<Rightarrow>
                         (case exact cd of
                            None \<Rightarrow> None
                          | Some cls \<Rightarrow>
                              Some (TableError (fst cls) (snd cls) (ident @ '' '' @ json message))))
      in case matched of
           Some e \<Rightarrow> Some e
         | None \<Rightarrow>
             (if m_success message = Some False
              then (let ret_msg = safeValue (m_ret_msg message) ''undefined'';
                        op = m_request_op message
                    in if op = Some ''auth''
                       then Some (AuthenticationError (''Authentication failed: '' @ ret_msg))
                       else Some (ExchangeError (ident @ '' '' @ ret_msg)))
              else None))"

definition handleErrorMessage ::
  "string \<Rightarrow> (ws_message \<Rightarrow> string) \<Rightarrow> (string \<rightharpoonup> string \<times> bool) \<Rightarrow> 'v client \<Rightarrow> ws_message \<Rightarrow>
     bool \<times> 'v client" where
  "handleErrorMessage ident json exact client message =
     (case handleErrorMessage_raises ident json exact message of
        None \<Rightarrow> (False, client)
      | Some error \<Rightarrow>
          (if instanceof_AuthenticationError error
           then (let messageHash = ''authenticated'';
                     c = reject client error (Some messageHash)
                 in (True, c\<lparr>subscriptions := (subscriptions c)(messageHash := None)\<rparr>))
           else (True, reject client error None)))"

text \<open>
  \<open>handleAuthenticate\<close>, of bybit and of hitbtc alike: \<open>success\<close> is the field \<open>success\<close>
  (bybit) or \<open>result\<close> (hitbtc) of the message. On success the future is taken from
  \<open>client.futures\<close> and resolved with \<open>true\<close>; it stays in the table.
\<close>

definition handleAuthenticate_on ::
  "bool option \<Rightarrow> string \<Rightarrow> bool client \<Rightarrow> exc + bool client" where
  "handleAuthenticate_on success feedback client =
     (let messageHash = ''authenticated''
      in if success = Some True
         then (case map_of (futures client) messageHash of
                 None \<Rightarrow> Inl (TypeError ''Cannot read properties of undefined (reading resolve)'')
               | Some fut \<Rightarrow> Inr (client\<lparr>settled := settle (Resolved True) fut (settled client)\<rparr>))
         else (let error = AuthenticationError feedback;
                   c = reject client error (Some messageHash)
               in Inr (c\<lparr>subscriptions := (subscriptions c)(messageHash := None)\<rparr>)))"

definition handleAuthenticate ::
  "string \<Rightarrow> (ws_message \<Rightarrow> string) \<Rightarrow> bool client \<Rightarrow> ws_message \<Rightarrow> exc + bool client" where
  "handleAuthenticate ident json client message =
     handleAuthenticate_on (m_success message) (ident @ '' '' @ json message) client"

definition handlePong :: "'v client \<Rightarrow> ws_message \<Rightarrow> 'v client" where
  "handlePong client message = client\<lparr>lastPong := m_pong message\<rparr>"

text \<open>
  \<open>handleMessage\<close>. The keys of \<open>methods\<close> in their order; \<open>call key\<close> is the handler
  registered under the key, which may raise.
\<close>

definition methods_keys :: "string list" where
  "methods_keys = [''orderbook'', ''kline'', ''order'', ''stopOrder'', ''ticker'', ''trade'',
     ''publicTrade'', ''depth'', ''wallet'', ''outboundAccountInfo'', ''execution'',
     ''ticketInfo'', ''user.openapi.perp.trade'', ''position'']"

definition handleMessage ::
  "string \<Rightarrow> (ws_message \<Rightarrow> string) \<Rightarrow> (string \<rightharpoonup> string \<times> bool) \<Rightarrow>
     (string \<Rightarrow> bool client \<Rightarrow> ws_message \<Rightarrow> exc + bool client) \<Rightarrow>
     bool client \<Rightarrow> ws_message \<Rightarrow> exc + bool client" where
  "handleMessage ident json exact call client message =
     (case handleErrorMessage ident json exact client message of
        (True, c) \<Rightarrow> Inr c
      | (False, c) \<Rightarrow>
          (if m_ret_msg message = Some ''pong'' then Inr (handlePong c message)
           else if m_pong message \<noteq> None then Inr (handlePong c message)
           else if m_op message = Some ''pong'' then Inr (handlePong c message)
           else if m_event message = Some ''sub'' then Inr c
           else (let topic = safeValue (m_topic message) []
                 in if topic \<in> set methods_keys then call topic c message
                    else (case find (\<lambda>key. indexOf topic key \<ge> 0) methods_keys of
                            Some key \<Rightarrow> call key c message
                          | None \<Rightarrow>
                              (if m_op message = Some ''auth'' \<or> m_type message = Some ''AUTH_RESP''
                               then handleAuthenticate ident json c message
                               else Inr c)))))"

section \<open>bingx: handleErrorMessage\<close>

definition bingx_handleErrorMessage ::
  "string \<Rightarrow> string \<Rightarrow> (string \<rightharpoonup> string \<times> bool) \<Rightarrow> 'v client \<Rightarrow> string option \<Rightarrow>
     bool \<times> 'v client" where
  "bingx_handleErrorMessage ident json_message exact client code =
     (case code of
        None \<Rightarrow> (True, client)
      | Some cd \<Rightarrow>
          (case exact cd of
             None \<Rightarrow> (True, client)
           | Some cls \<Rightarrow>
               (True, reject client
                        (TableError (fst cls) (snd cls) (ident @ '' '' @ json_message)) None)))"

text \<open>
  The state of a fresh connection, or of one whose login is still awaited: the future
  registered under \<open>authenticated\<close>, if any, is pending.
\<close>

definition auth_future_pending :: "'v client \<Rightarrow> bool" where
  "auth_future_pending client =
     (case map_of (futures client) ''authenticated'' of
        None \<Rightarrow> True
      | Some fut \<Rightarrow> fut < length (settled client) \<and> settled client ! fut = Pending)"

definition example_credentials :: credentials where
  "example_credentials = \<lparr>apiKey = ''key'', secret = ''secret''\<rparr>"

definition example_hmac :: "string \<Rightarrow> string \<Rightarrow> string" where
  "example_hmac payload key = ''hmac('' @ payload @ '','' @ key @ '')''"

definition example_toString :: "int \<Rightarrow> string" where
  "example_toString n = (if n = 11000 then ''11000'' else if n = 11005 then ''11005'' else ''0'')"

definition auth_success :: ws_message where
  "auth_success = \<lparr>m_code = None, m_ret_code = None, m_success = Some True,
     m_ret_msg = Some [], m_request_op = None, m_op = Some ''auth'', m_type = None,
     m_topic = None, m_event = None, m_pong = None\<rparr>"

text \<open>
  Example data: a connection with two waiters, one per subscribe request, and the
  response that rejects one subscribe request.
\<close>

definition two_waiters :: "'v client" where
  "two_waiters = \<lparr>url = ''wss://stream.bybit.com/v5/public/spot'',
     futures = [(''orderbook:BTC/USDT'', 0), (''trade:ETH/USDT'', 1)],
     subscriptions = [''orderbook:BTC/USDT'' \<mapsto> True, ''trade:ETH/USDT'' \<mapsto> True],
     settled = [Pending, Pending], outbox = [], lastPong = None\<rparr>"

definition subscribe_error :: ws_message where
  "subscribe_error = \<lparr>m_code = None, m_ret_code = None, m_success = Some False,
     m_ret_msg = Some ''error:handler not found,topic:orderbook.50.BTCUSD'',
     m_request_op = Some ''subscribe'', m_op = None, m_type = None,
     m_topic = None, m_event = None, m_pong = None\<rparr>"

text \<open>
  The login response that reports a failure in the shape of the acknowledgement that
  \<open>handleAuthenticate\<close> documents, with \<open>op\<close> at the top level and no \<open>request\<close>; and the
  same failure in the shape that carries the request.
\<close>

definition auth_failure :: ws_message where
  "auth_failure = \<lparr>m_code = None, m_ret_code = None, m_success = Some False,
     m_ret_msg = Some ''Params Error'', m_request_op = None, m_op = Some ''auth'',
     m_type = None, m_topic = None, m_event = None, m_pong = None\<rparr>"

definition auth_failure_with_request :: ws_message where
  "auth_failure_with_request = \<lparr>m_code = None, m_ret_code = None, m_success = Some False,
     m_ret_msg = Some ''error:USVC1111'', m_request_op = Some ''auth'', m_op = None,
     m_type = None, m_topic = None, m_event = None, m_pong = None\<rparr>"

text \<open>The connection after one call of \<open>authenticate\<close> at clock value 1000.\<close>

definition awaiting_login :: "bool client" where
  "awaiting_login = \<lparr>url = ''wss://stream.bybit.com/v5/private'',
     futures = [(''authenticated'', 0)],
     subscriptions = [''authenticated'' \<mapsto> True],
     settled = [Pending],
     outbox = [[(''op'', JStr ''auth''),
                (''args'', JArr [''key'', ''11000'', ''hmac(GET/realtime11000,secret)''])]],
     lastPong = None\<rparr>"

section \<open>hitbtc and bingx: handleOrderBook\<close>

text \<open>
  hitbtc: one entry of the payload \<open>snapshot\<close> or \<open>update\<close> of an order book message.
  Both payloads are handled alike. \<open>channel\<close> is the field \<open>ch\<close> of the message;
  \<open>safeMarket\<close> gives the symbol of a market id.
\<close>

record hitbtc_book_item =
  item_t :: "int option"
  item_s :: "int option"
  item_a :: "level list option"
  item_b :: "level list option"

fun hitbtc_handleOrderBook ::
  "(string \<Rightarrow> string) \<Rightarrow> string option \<Rightarrow> (string \<rightharpoonup> orderbook) \<times> orderbook client \<Rightarrow>
     (string \<times> hitbtc_book_item) list \<Rightarrow> (string \<rightharpoonup> orderbook) \<times> orderbook client" where
  "hitbtc_handleOrderBook safeMarket channel state [] = state"
| "hitbtc_handleOrderBook safeMarket channel state ((marketId, item) # rest) =
     (let symb = safeMarket marketId;
          messageHash = safeValue channel ''undefined'' @ ''::'' @ symb;
          orderbook = (case fst state symb of None \<Rightarrow> orderBook | Some ob \<Rightarrow> ob);
          ts = item_t item;
          nonce' = item_s item;
          orderbook' = orderbook
            \<lparr>asks := hitbtc_handleDeltas (asks orderbook) (safeValue (item_a item) []),
             bids := hitbtc_handleDeltas (bids orderbook) (safeValue (item_b item) []),
             timestamp := ts, nonce := nonce', symbol := Some symb\<rparr>
      in hitbtc_handleOrderBook safeMarket channel
           ((fst state)(symb \<mapsto> orderbook'), resolve (snd state) orderbook' messageHash) rest)"

text \<open>
  bingx: every order book message is a snapshot. \<open>messageHash.split\<close> on an undefined
  \<open>dataType\<close> is a \<open>TypeError\<close>.
\<close>

record bingx_book_message =
  bm_dataType :: "string option"
  bm_bids :: "level list option"
  bm_asks :: "level list option"

definition bingx_handleOrderBook ::
  "(string option \<Rightarrow> string \<Rightarrow> string) \<Rightarrow> (string \<rightharpoonup> orderbook) \<Rightarrow> orderbook client \<Rightarrow>
     bingx_book_message \<Rightarrow> exc + (string \<rightharpoonup> orderbook) \<times> orderbook client" where
  "bingx_handleOrderBook safeMarket orderbooks client message =
     (case bm_dataType message of
        None \<Rightarrow> Inl (TypeError ''Cannot read properties of undefined (reading split)'')
      | Some messageHash \<Rightarrow>
          (let data = \<lparr>data_s = None, data_b = bm_bids message, data_a = bm_asks message,
                       data_u = None, data_seq = None\<rparr>;
               marketId = safeIndex (split messageHash CHR ''@'') 0;
               isSwap = (indexOf (url client) ''swap'' \<ge> 0);
               marketType = (if isSwap then ''swap'' else ''spot'');
               symb = safeMarket marketId marketType;
               orderbook = (case orderbooks symb of None \<Rightarrow> orderBook | Some ob \<Rightarrow> ob);
               snapshot = parseOrderBook data symb None;
               orderbook' = reset orderbook snapshot
           in Inr (orderbooks(symb \<mapsto> orderbook'), resolve client orderbook' messageHash)))"

text \<open>The symbol that the handler of bingx computes for a message hash.\<close>

definition bingx_symbol ::
  "(string option \<Rightarrow> string \<Rightarrow> string) \<Rightarrow> 'v client \<Rightarrow> string \<Rightarrow> string" where
  "bingx_symbol safeMarket client messageHash =
     safeMarket (safeIndex (split messageHash CHR ''@'') 0)
       (if indexOf (url client) ''swap'' \<ge> 0 then ''swap'' else ''spot'')"

text \<open>The result of a handler that may raise, when it did not.\<close>

definition projr_option :: "'e + 'a \<Rightarrow> 'a option" where
  "projr_option r = (case r of Inl e \<Rightarrow> None | Inr v \<Rightarrow> Some v)"

definition example_numberToString :: "int \<Rightarrow> string" where
  "example_numberToString n = (if n = 1000 then ''1000'' else ''0'')"

text \<open>
  The connection that awaited the login response after a response that rejected a
  subscribe request: its futures are rejected, the \<open>authenticated\<close> subscription stays.
\<close>

definition after_subscribe_error :: "bool client" where
  "after_subscribe_error = awaiting_login
     \<lparr>futures := [],
      settled :=
        [Rejected (ExchangeError ''bybit error:handler not found,topic:orderbook.50.BTCUSD'')]\<rparr>"

text \<open>
  Example data: a private connection that awaits the login response and has a second
  waiter, on the hash of the order stream.
\<close>

definition private_waiters :: "'v client" where
  "private_waiters = \<lparr>url = ''wss://stream.bybit.com/v5/private'',
     futures = [(''authenticated'', 0), (''orders'', 1)],
     subscriptions = [''authenticated'' \<mapsto> True, ''orders'' \<mapsto> True],
     settled = [Pending, Pending], outbox = [], lastPong = None\<rparr>"

section \<open>Properties of the order book sides\<close>

lemma store_level_keys:
  "x \<in> set (store_level d p a ls) \<Longrightarrow> fst x = p \<or> fst x \<in> fst ` set ls"
  by (induction ls) (force split: if_splits)+

lemma goes_before_trans: "goes_before d p q \<Longrightarrow> goes_before d q r \<Longrightarrow> goes_before d p r"
  by (auto simp: goes_before_def split: if_splits)

lemma goes_before_irrefl: "\<not> goes_before d p p"
  by (simp add: goes_before_def)

lemma goes_before_total: "p \<noteq> q \<Longrightarrow> \<not> goes_before d p q \<Longrightarrow> goes_before d q p"
  by (auto simp: goes_before_def split: if_splits)

lemma store_level_sorted:
  "sorted_wrt (goes_before d) (map fst ls) \<Longrightarrow>
   sorted_wrt (goes_before d) (map fst (store_level d p a ls))"
proof (induction ls)
  case Nil
  then show ?case by simp
next
  case (Cons x ls)
  obtain q b where x: "x = (q, b)" by (cases x)
  have tail: "sorted_wrt (goes_before d) (map fst ls)"
    and head: "\<forall>r \<in> set ls. goes_before d q (fst r)"
    using Cons.prems by (auto simp: x)
  show ?case
  proof (cases "q = p")
    case True
    then show ?thesis using head tail by (simp add: x)
  next
    case qp: False
    show ?thesis
    proof (cases "goes_before d p q")
      case True
      have "\<forall>r \<in> set ls. goes_before d p (fst r)"
        using head True goes_before_trans by blast
      then show ?thesis
        using qp True head tail by (simp add: x)
    next
      case False
      have pq: "goes_before d q p" using qp False goes_before_total by blast
      have "\<forall>r \<in> set (store_level d p a ls). goes_before d q (fst r)"
        using store_level_keys [of _ d p a ls] head pq by fastforce
      then show ?thesis
        using qp False Cons.IH [OF tail] by (simp add: x)
    qed
  qed
qed

lemma store_level_map_of:
  "sorted_wrt (goes_before d) (map fst ls) \<Longrightarrow>
   map_of (store_level d p a ls) =
     (if a = 0 then (map_of ls)(p := None) else (map_of ls)(p \<mapsto> a))"
proof (induction ls)
  case Nil
  then show ?case by simp
next
  case (Cons x ls)
  obtain q b where x: "x = (q, b)" by (cases x)
  have tail: "sorted_wrt (goes_before d) (map fst ls)"
    and head: "\<forall>r \<in> set ls. goes_before d q (fst r)"
    using Cons.prems by (auto simp: x)
  show ?case
  proof (cases "q = p")
    case True
    have "p \<notin> fst ` set ls"
      using head True goes_before_irrefl by fastforce
    then have "map_of ls p = None"
      by (simp add: map_of_eq_None_iff)
    then show ?thesis using True by (auto simp: x)
  next
    case qp: False
    show ?thesis
    proof (cases "goes_before d p q")
      case True
      have "\<forall>r \<in> set ls. goes_before d p (fst r)"
        using head True goes_before_trans by blast
      then have "p \<notin> fst ` set ls"
        using goes_before_irrefl by fastforce
      then have "map_of ls p = None"
        by (simp add: map_of_eq_None_iff)
      then show ?thesis using qp True by (auto simp: x)
    next
      case False
      then show ?thesis using qp Cons.IH [OF tail] by (auto simp: x)
    qed
  qed
qed

lemma handleDelta_ok: "side_ok s \<Longrightarrow> side_ok (handleDelta s delta)"
  by (simp add: side_ok_def handleDelta_def storeArray_def store_def store_level_sorted)

lemma handleDeltas_ok: "side_ok s \<Longrightarrow> side_ok (handleDeltas s deltas)"
  by (induction deltas arbitrary: s) (simp_all add: handleDelta_ok)

lemma handleDeltas_descending: "descending (handleDeltas s deltas) = descending s"
  by (induction deltas arbitrary: s)
     (simp_all add: handleDelta_def storeArray_def store_def)

lemma handleDelta_map_of:
  "side_ok s \<Longrightarrow> map_of (levels (handleDelta s delta)) = apply_pair (map_of (levels s)) delta"
  by (simp add: side_ok_def handleDelta_def storeArray_def store_def parseBidAsk_def
        store_level_map_of apply_pair_def)

lemma handleDeltas_map_of:
  "side_ok s \<Longrightarrow>
   map_of (levels (handleDeltas s deltas)) = foldl apply_pair (map_of (levels s)) deltas"
  by (induction deltas arbitrary: s) (simp_all add: handleDelta_ok handleDelta_map_of)

lemma hitbtc_handleDeltas_eq: "hitbtc_handleDeltas s deltas = handleDeltas s deltas"
  by (induction deltas arbitrary: s)
     (simp_all add: hitbtc_handleDelta_def handleDelta_def storeArray_def parseBidAsk_def)

section \<open>Applying deltas to a side\<close>

text \<open>
  C2. On a side whose prices are strictly ordered, \<open>handleDelta\<close> with the pair
  \<open>(p, a)\<close> removes the level at price \<open>p\<close> when \<open>a\<close> is zero, and inserts or
  replaces it otherwise; \<open>handleDeltas\<close> does so for every pair of the delta in turn, keeps
  the side ordered in its direction (bids descending, asks ascending), and the adapters
  that call \<open>store\<close> directly compute the same side. On bids \<open>[[100,1],[99,2]]\<close> the
  delta \<open>[[99,0],[98,5]]\<close> yields exactly \<open>[[100,1],[98,5]]\<close>.
\<close>

theorem handleDeltas_store:
  assumes "side_ok s"
  shows "map_of (levels (handleDelta s (p, a))) =
           (if a = 0 then (map_of (levels s))(p := None) else (map_of (levels s))(p \<mapsto> a))
       \<and> map_of (levels (handleDeltas s deltas)) = foldl apply_pair (map_of (levels s)) deltas
       \<and> sorted_wrt (goes_before (descending s)) (map fst (levels (handleDeltas s deltas)))
       \<and> descending (handleDeltas s deltas) = descending s
       \<and> hitbtc_handleDeltas s deltas = handleDeltas s deltas
       \<and> levels (handleDeltas \<lparr>descending = True, levels = [(100, 1), (99, 2)]\<rparr>
                   [(99, 0), (98, 5)]) = [(100, 1), (98, 5)]"
proof -
  have ex: "levels (handleDeltas \<lparr>descending = True, levels = [(100, 1), (99, 2)]\<rparr>
                   [(99, 0), (98, 5)]) = [(100, 1), (98, 5)]"
    by (simp add: handleDelta_def storeArray_def store_def parseBidAsk_def goes_before_def)
  have one: "map_of (levels (handleDelta s (p, a))) =
           (if a = 0 then (map_of (levels s))(p := None) else (map_of (levels s))(p \<mapsto> a))"
    using assms by (simp add: handleDelta_map_of apply_pair_def)
  have srt: "sorted_wrt (goes_before (descending s)) (map fst (levels (handleDeltas s deltas)))"
    using handleDeltas_ok [OF assms, of deltas]
    by (simp add: side_ok_def handleDeltas_descending)
  show ?thesis
    using ex one srt handleDeltas_map_of [OF assms] handleDeltas_descending
      hitbtc_handleDeltas_eq by simp
qed

theorem handleDeltas_store_witness:
  "side_ok \<lparr>descending = False, levels = [(101, 1), (102, 3)]\<rparr>
   \<and> map_of (levels (handleDeltas \<lparr>descending = False, levels = [(101, 1), (102, 3)]\<rparr>
        [(102, 0), (103, 4)])) 103 = Some 4
   \<and> levels (handleDeltas \<lparr>descending = False, levels = [(101, 1), (102, 3)]\<rparr>
        [(102, 0), (103, 4)]) = [(101, 1), (103, 4)]"
proof -
  have ok: "side_ok \<lparr>descending = False, levels = [(101, 1), (102, 3)]\<rparr>"
    by (simp add: side_ok_def goes_before_def)
  have lv: "levels (handleDeltas \<lparr>descending = False, levels = [(101, 1), (102, 3)]\<rparr>
        [(102, 0), (103, 4)]) = [(101, 1), (103, 4)]"
    by (simp add: handleDelta_def storeArray_def store_def parseBidAsk_def goes_before_def)
  show ?thesis
    using ok lv handleDeltas_store [OF ok, of 102 0 "[(102, 0), (103, 4)]"]
    by (simp add: apply_pair_def)
qed

section \<open>Properties of handleOrderBook\<close>

lemma foldl_storeArray: "foldl storeArray s ds = handleDeltas s ds"
  by (induction ds arbitrary: s) (simp_all add: handleDelta_def parseBidAsk_def)

lemma outbox_resolve: "outbox (resolve client v h) = outbox client"
  by (simp add: resolve_def split: option.splits)

lemma handleOrderBook_delta_eq:
  assumes "msg_type message \<noteq> Some ''snapshot''"
  shows "handleOrderBook safeMarket orderbooks client message =
     (let symb = book_symbol safeMarket client message;
          ob = merged_book (case orderbooks symb of None \<Rightarrow> orderBook | Some ob \<Rightarrow> ob) message
      in (orderbooks(symb \<mapsto> ob), resolve client ob (''orderbook:'' @ symb)))"
  using assms by (simp add: handleOrderBook_def book_symbol_def merged_book_def Let_def)

lemma handleOrderBook_snapshot_eq:
  assumes "msg_type message = Some ''snapshot''"
  shows "handleOrderBook safeMarket orderbooks client message =
     (let symb = book_symbol safeMarket client message;
          ob = reset (case orderbooks symb of None \<Rightarrow> orderBook | Some ob \<Rightarrow> ob)
                 (parseOrderBook (msg_data message) symb (msg_ts message))
      in (orderbooks(symb \<mapsto> ob), resolve client ob (''orderbook:'' @ symb)))"
  using assms by (simp add: handleOrderBook_def book_symbol_def Let_def)

lemma reset_rebuilt:
  assumes "\<not> descending (asks ob)" "descending (bids ob)"
  shows "reset ob (parseOrderBook (msg_data message) symb (msg_ts message)) = rebuilt_book symb message"
proof -
  have a: "(asks ob)\<lparr>levels := []\<rparr> = \<lparr>descending = False, levels = []\<rparr>"
    using assms by simp
  have b: "(bids ob)\<lparr>levels := []\<rparr> = \<lparr>descending = True, levels = []\<rparr>"
    using assms by simp
  show ?thesis
    by (simp add: reset_def parseOrderBook_def rebuilt_book_def foldl_storeArray a b)
qed

lemma book_ok_orderBook: "book_ok orderBook"
  by (simp add: book_ok_def orderBook_def side_ok_def)

lemma book_ok_merged: "book_ok ob \<Longrightarrow> book_ok (merged_book ob message)"
  by (simp add: book_ok_def merged_book_def handleDeltas_ok handleDeltas_descending)

lemma side_ok_empty: "side_ok \<lparr>descending = d, levels = []\<rparr>"
  by (simp add: side_ok_def)

lemma book_ok_rebuilt: "book_ok (rebuilt_book symb message)"
  by (simp add: book_ok_def rebuilt_book_def handleDeltas_ok handleDeltas_descending
        side_ok_empty)

lemma prior_book_ok:
  "(\<forall>ob \<in> ran orderbooks. book_ok ob) \<Longrightarrow>
   book_ok (case orderbooks symb of None \<Rightarrow> orderBook | Some ob \<Rightarrow> ob)"
  by (auto simp: book_ok_orderBook ran_def split: option.splits)

lemma handleOrderBook_snapshot_rebuilt:
  assumes "msg_type message = Some ''snapshot''" "\<forall>ob \<in> ran orderbooks. book_ok ob"
  shows "handleOrderBook safeMarket orderbooks client message =
     (let symb = book_symbol safeMarket client message; ob = rebuilt_book symb message
      in (orderbooks(symb \<mapsto> ob), resolve client ob (''orderbook:'' @ symb)))"
proof -
  let ?symb = "book_symbol safeMarket client message"
  have "book_ok (case orderbooks ?symb of None \<Rightarrow> orderBook | Some ob \<Rightarrow> ob)"
    using assms(2) by (rule prior_book_ok)
  then show ?thesis
    using assms(1) by (simp add: handleOrderBook_snapshot_eq reset_rebuilt book_ok_def Let_def)
qed

lemma handleOrderBook_book_ok:
  assumes "\<forall>ob \<in> ran orderbooks. book_ok ob"
  shows "\<forall>ob \<in> ran (fst (handleOrderBook safeMarket orderbooks client message)). book_ok ob"
proof (cases "msg_type message = Some ''snapshot''")
  case True
  then show ?thesis
    using assms book_ok_rebuilt
    by (auto simp: handleOrderBook_snapshot_rebuilt Let_def ran_def split: if_splits)
next
  case False
  then show ?thesis
    using assms book_ok_merged [OF prior_book_ok [OF assms]]
    by (auto simp: handleOrderBook_delta_eq Let_def ran_def split: if_splits)
qed

lemma url_resolve: "url (resolve client v h) = url client"
  by (simp add: resolve_def split: option.splits)

lemma handleOrderBook_url:
  "url (snd (handleOrderBook safeMarket orderbooks client message)) = url client"
  by (simp add: handleOrderBook_def Let_def url_resolve)

lemma rebuilt_map_of:
  "map_of (levels (handleDeltas \<lparr>descending = d, levels = []\<rparr> ds)) = foldl apply_pair Map.empty ds"
  using handleDeltas_map_of [OF side_ok_empty, of d ds] by simp

lemma hitbtc_handleOrderBook_item:
  "fst (hitbtc_handleOrderBook safeMarket channel (orderbooks, client) [(marketId, item)])
     (safeMarket marketId)
   = Some ((case orderbooks (safeMarket marketId) of None \<Rightarrow> orderBook | Some ob \<Rightarrow> ob)
       \<lparr>asks := handleDeltas (asks (case orderbooks (safeMarket marketId) of
                                      None \<Rightarrow> orderBook | Some ob \<Rightarrow> ob))
                  (safeValue (item_a item) []),
        bids := handleDeltas (bids (case orderbooks (safeMarket marketId) of
                                      None \<Rightarrow> orderBook | Some ob \<Rightarrow> ob))
                  (safeValue (item_b item) []),
        timestamp := item_t item, nonce := item_s item,
        symbol := Some (safeMarket marketId)\<rparr>)"
  by (simp add: Let_def hitbtc_handleDeltas_eq)

lemma bingx_handleOrderBook_rebuilt:
  assumes "bm_dataType message = Some messageHash" "\<forall>ob \<in> ran orderbooks. book_ok ob"
  shows "bingx_handleOrderBook safeMarket orderbooks client message =
     Inr (orderbooks(bingx_symbol safeMarket client messageHash \<mapsto>
            \<lparr>asks = handleDeltas \<lparr>descending = False, levels = []\<rparr>
                      (safeValue (bm_asks message) []),
             bids = handleDeltas \<lparr>descending = True, levels = []\<rparr>
                      (safeValue (bm_bids message) []),
             timestamp = None, nonce = None,
             symbol = Some (bingx_symbol safeMarket client messageHash)\<rparr>),
          resolve client
            \<lparr>asks = handleDeltas \<lparr>descending = False, levels = []\<rparr>
                      (safeValue (bm_asks message) []),
             bids = handleDeltas \<lparr>descending = True, levels = []\<rparr>
                      (safeValue (bm_bids message) []),
             timestamp = None, nonce = None,
             symbol = Some (bingx_symbol safeMarket client messageHash)\<rparr> messageHash)"
proof -
  let ?symb = "bingx_symbol safeMarket client messageHash"
  let ?prior = "case orderbooks ?symb of None \<Rightarrow> orderBook | Some ob \<Rightarrow> ob"
  have ok: "book_ok ?prior" using assms(2) by (rule prior_book_ok)
  have a: "(asks ?prior)\<lparr>levels := []\<rparr> = \<lparr>descending = False, levels = []\<rparr>"
    using ok by (simp add: book_ok_def)
  have b: "(bids ?prior)\<lparr>levels := []\<rparr> = \<lparr>descending = True, levels = []\<rparr>"
    using ok by (simp add: book_ok_def)
  have r: "reset ?prior
             (parseOrderBook \<lparr>data_s = None, data_b = bm_bids message, data_a = bm_asks message,
                               data_u = None, data_seq = None\<rparr> ?symb None) =
           \<lparr>asks = handleDeltas \<lparr>descending = False, levels = []\<rparr>
                      (safeValue (bm_asks message) []),
            bids = handleDeltas \<lparr>descending = True, levels = []\<rparr>
                      (safeValue (bm_bids message) []),
            timestamp = None, nonce = None, symbol = Some ?symb\<rparr>"
    by (simp add: reset_def parseOrderBook_def foldl_storeArray a b)
  show ?thesis
    using assms(1) r
    by (simp add: bingx_handleOrderBook_def bingx_symbol_def Let_def)
qed

section \<open>bybit: deltas, sequence numbers and snapshots\<close>

text \<open>
  C1, as stated, fails: after a snapshot and the deltas numbered 1, 2, 3, the delta
  numbered 5 is merged into the stored book like any other; the book is not invalidated
  and nothing is sent on the connection.
\<close>

theorem handleOrderBook_gap_counterexample:
  "handleOrderBooks example_safeMarket (Map.empty, example_client)
     [book_message ''snapshot'' 1000 [(100, 1), (99, 2)] [(101, 1), (102, 3)] 0,
      book_message ''delta'' 1001 [(99, 0)] [] 1,
      book_message ''delta'' 1002 [(98, 5)] [] 2,
      book_message ''delta'' 1003 [] [(101, 0)] 3,
      book_message ''delta'' 1005 [(97, 7)] [] 5]
   = ([''BTC/USDT'' \<mapsto>
        \<lparr>asks = \<lparr>descending = False, levels = [(102, 3)]\<rparr>,
         bids = \<lparr>descending = True, levels = [(100, 1), (98, 5), (97, 7)]\<rparr>,
         timestamp = Some 1005, nonce = None, symbol = Some ''BTC/USDT''\<rparr>],
      example_client)"
  by (simp add: handleOrderBook_def Let_def example_safeMarket_def example_client_def
        book_message_def indexOf_def resolve_def reset_def parseOrderBook_def orderBook_def
        safeValue_def handleDelta_def storeArray_def store_def parseBidAsk_def goes_before_def)

text \<open>
  C1, amended: a delta message for a symbol whose book is stored is merged into that book
  by \<open>handleDeltas\<close>, asks and bids, and the message's timestamp is recorded, whatever the
  sequence fields \<open>u\<close> and \<open>seq\<close> of the delta are: they are not read, the nonce of the book
  is left as it is, nothing is sent on the connection, and the merged book is resolved
  under the hash of the symbol.
\<close>

theorem handleOrderBook_delta_merges:
  assumes "msg_type message \<noteq> Some ''snapshot''"
    and "orderbooks (book_symbol safeMarket client message) = Some ob"
  shows "handleOrderBook safeMarket orderbooks client message =
           (orderbooks(book_symbol safeMarket client message \<mapsto> merged_book ob message),
            resolve client (merged_book ob message)
              (''orderbook:'' @ book_symbol safeMarket client message))
       \<and> nonce (merged_book ob message) = nonce ob
       \<and> outbox (snd (handleOrderBook safeMarket orderbooks client message)) = outbox client
       \<and> handleOrderBook safeMarket orderbooks client
            (message\<lparr>msg_data := (msg_data message)\<lparr>data_u := u, data_seq := sq\<rparr>\<rparr>)
          = handleOrderBook safeMarket orderbooks client message"
proof -
  let ?m = "message\<lparr>msg_data := (msg_data message)\<lparr>data_u := u, data_seq := sq\<rparr>\<rparr>"
  have t: "msg_type ?m \<noteq> Some ''snapshot''" using assms(1) by simp
  have s: "book_symbol safeMarket client ?m = book_symbol safeMarket client message"
    by (simp add: book_symbol_def)
  have mb: "\<And>b. merged_book b ?m = merged_book b message"
    by (simp add: merged_book_def)
  have 1: "handleOrderBook safeMarket orderbooks client message =
           (orderbooks(book_symbol safeMarket client message \<mapsto> merged_book ob message),
            resolve client (merged_book ob message)
              (''orderbook:'' @ book_symbol safeMarket client message))"
    using assms by (simp add: handleOrderBook_delta_eq Let_def)
  have 2: "nonce (merged_book ob message) = nonce ob"
    by (simp add: merged_book_def)
  have 3: "outbox (snd (handleOrderBook safeMarket orderbooks client message)) = outbox client"
    by (simp add: 1 outbox_resolve)
  have 4: "handleOrderBook safeMarket orderbooks client ?m
          = handleOrderBook safeMarket orderbooks client message"
    by (simp only: handleOrderBook_delta_eq [OF t] handleOrderBook_delta_eq [OF assms(1)] s mb)
  show ?thesis using 1 2 3 4 by blast
qed

theorem handleOrderBook_delta_merges_witness:
  "fst (handleOrderBook example_safeMarket [''BTC/USDT'' \<mapsto> example_book] example_client
          (book_message ''delta'' 1005 [(97, 7)] [] 5)) ''BTC/USDT''
   = Some \<lparr>asks = \<lparr>descending = False, levels = [(101, 1), (102, 3)]\<rparr>,
           bids = \<lparr>descending = True, levels = [(100, 1), (99, 2), (97, 7)]\<rparr>,
           timestamp = Some 1005, nonce = None, symbol = Some ''BTC/USDT''\<rparr>"
proof -
  have t: "msg_type (book_message ''delta'' 1005 [(97, 7)] [] 5) \<noteq> Some ''snapshot''"
    by (simp add: book_message_def)
  have s: "book_symbol example_safeMarket (example_client :: orderbook client)
             (book_message ''delta'' 1005 [(97, 7)] [] 5) = ''BTC/USDT''"
    by (simp add: book_symbol_def example_safeMarket_def book_message_def)
  have b: "[''BTC/USDT'' \<mapsto> example_book]
             (book_symbol example_safeMarket (example_client :: orderbook client)
                (book_message ''delta'' 1005 [(97, 7)] [] 5)) = Some example_book"
    by (simp add: s)
  have m: "merged_book example_book (book_message ''delta'' 1005 [(97, 7)] [] 5) =
      \<lparr>asks = \<lparr>descending = False, levels = [(101, 1), (102, 3)]\<rparr>,
       bids = \<lparr>descending = True, levels = [(100, 1), (99, 2), (97, 7)]\<rparr>,
       timestamp = Some 1005, nonce = None, symbol = Some ''BTC/USDT''\<rparr>"
    by (simp add: merged_book_def example_book_def book_message_def safeValue_def
          handleDelta_def storeArray_def store_def parseBidAsk_def goes_before_def)
  show ?thesis
    using handleOrderBook_delta_merges
      [where message = "book_message ''delta'' 1005 [(97, 7)] [] 5"
         and orderbooks = "[''BTC/USDT'' \<mapsto> example_book]"
         and safeMarket = example_safeMarket and ob = example_book
         and client = "example_client :: orderbook client", OF t b]
    by (simp add: s m)
qed

text \<open>
  C6, as stated, fails: with no book stored for the symbol, a delta message is applied to
  a fresh empty book, and the result is stored and resolved to the waiter of the symbol.
\<close>

theorem handleOrderBook_early_delta_counterexample:
  "handleOrderBook example_safeMarket Map.empty
     (snd (future example_client ''orderbook:BTC/USDT''))
     (book_message ''delta'' 1001 [(97, 7)] [(103, 2)] 8)
   = ([''BTC/USDT'' \<mapsto>
        \<lparr>asks = \<lparr>descending = False, levels = [(103, 2)]\<rparr>,
         bids = \<lparr>descending = True, levels = [(97, 7)]\<rparr>,
         timestamp = Some 1001, nonce = None, symbol = None\<rparr>],
      example_client
        \<lparr>settled :=
           [Resolved \<lparr>asks = \<lparr>descending = False, levels = [(103, 2)]\<rparr>,
                      bids = \<lparr>descending = True, levels = [(97, 7)]\<rparr>,
                      timestamp = Some 1001, nonce = None, symbol = None\<rparr>]\<rparr>)"
  by (simp add: handleOrderBook_def Let_def example_safeMarket_def example_client_def
        book_message_def indexOf_def resolve_def future_def settle_def orderBook_def
        safeValue_def handleDelta_def storeArray_def store_def parseBidAsk_def goes_before_def)

text \<open>
  C6, amended: a delta message that arrives for a symbol with no stored book is applied
  to the empty book of \<open>this.orderBook ()\<close>; the pairs of the delta become the levels of
  the book, which is stored for the symbol and resolved under the symbol's hash.
\<close>

theorem handleOrderBook_delta_before_snapshot:
  assumes "msg_type message \<noteq> Some ''snapshot''"
    and "orderbooks (book_symbol safeMarket client message) = None"
  shows "handleOrderBook safeMarket orderbooks client message =
           (orderbooks(book_symbol safeMarket client message \<mapsto> merged_book orderBook message),
            resolve client (merged_book orderBook message)
              (''orderbook:'' @ book_symbol safeMarket client message))
       \<and> map_of (levels (asks (merged_book orderBook message))) =
           foldl apply_pair Map.empty (safeValue (data_a (msg_data message)) [])
       \<and> map_of (levels (bids (merged_book orderBook message))) =
           foldl apply_pair Map.empty (safeValue (data_b (msg_data message)) [])"
proof -
  have 1: "handleOrderBook safeMarket orderbooks client message =
           (orderbooks(book_symbol safeMarket client message \<mapsto> merged_book orderBook message),
            resolve client (merged_book orderBook message)
              (''orderbook:'' @ book_symbol safeMarket client message))"
    using assms by (simp add: handleOrderBook_delta_eq Let_def)
  have 2: "map_of (levels (asks (merged_book orderBook message))) =
           foldl apply_pair Map.empty (safeValue (data_a (msg_data message)) [])"
    by (simp add: merged_book_def orderBook_def rebuilt_map_of)
  have 3: "map_of (levels (bids (merged_book orderBook message))) =
           foldl apply_pair Map.empty (safeValue (data_b (msg_data message)) [])"
    by (simp add: merged_book_def orderBook_def rebuilt_map_of)
  show ?thesis by (intro conjI; fact)
qed

theorem handleOrderBook_delta_before_snapshot_witness:
  "map_of (levels (bids (the (fst (handleOrderBook example_safeMarket Map.empty
       (example_client :: orderbook client)
       (book_message ''delta'' 1001 [(97, 7), (96, 0)] [(103, 2)] 8)) ''BTC/USDT'')))) 97
   = Some 7"
proof -
  have t: "msg_type (book_message ''delta'' 1001 [(97, 7), (96, 0)] [(103, 2)] 8)
             \<noteq> Some ''snapshot''"
    by (simp add: book_message_def)
  have s: "book_symbol example_safeMarket (example_client :: orderbook client)
             (book_message ''delta'' 1001 [(97, 7), (96, 0)] [(103, 2)] 8) = ''BTC/USDT''"
    by (simp add: book_symbol_def example_safeMarket_def book_message_def)
  have b: "Map.empty (book_symbol example_safeMarket (example_client :: orderbook client)
             (book_message ''delta'' 1001 [(97, 7), (96, 0)] [(103, 2)] 8))
           = (None :: orderbook option)"
    by simp
  have d: "safeValue (data_b (msg_data (book_message ''delta'' 1001 [(97, 7), (96, 0)]
             [(103, 2)] 8))) [] = [(97, 7), (96, 0)]"
    by (simp add: book_message_def safeValue_def)
  show ?thesis
    using handleOrderBook_delta_before_snapshot
      [where message = "book_message ''delta'' 1001 [(97, 7), (96, 0)] [(103, 2)] 8"
         and orderbooks = "Map.empty"
         and safeMarket = example_safeMarket
         and client = "example_client :: orderbook client", OF t b]
    by (simp add: s d apply_pair_def)
qed

text \<open>
  C5, as stated, fails in one part: the book stored for a snapshot does not carry the
  snapshot's sequence number.
\<close>

theorem handleOrderBook_snapshot_nonce_counterexample:
  "data_seq (msg_data (book_message ''snapshot'' 1000 [(100, 1), (99, 2)]
       [(101, 1), (102, 3)] 7961638724)) = Some 7961638724
   \<and> map_option nonce
       (fst (handleOrderBook example_safeMarket Map.empty (example_client :: orderbook client)
          (book_message ''snapshot'' 1000 [(100, 1), (99, 2)] [(101, 1), (102, 3)]
             7961638724)) ''BTC/USDT'') = Some None"
  by (simp add: handleOrderBook_def Let_def example_safeMarket_def example_client_def
        book_message_def indexOf_def reset_def parseOrderBook_def)

text \<open>
  C5, amended: for a snapshot message the stored book is built from the message alone:
  the prior levels of both sides are discarded, asks and bids hold the pairs of the
  snapshot's arrays, each side ordered in its direction, and the message's timestamp and
  the symbol are recorded. The sequence fields of the snapshot are not read and the nonce
  of the stored book is undefined. A delta handled next for the same market on the same
  connection is merged into this rebuilt book. The handler of bingx, whose messages are
  all snapshots and carry no sequence number, rebuilds the book in the same way.
\<close>

theorem handleOrderBook_snapshot_rebuilds:
  assumes "msg_type message = Some ''snapshot''"
    and "\<forall>ob \<in> ran orderbooks. book_ok ob"
    and "msg_type delta \<noteq> Some ''snapshot''"
    and "data_s (msg_data delta) = data_s (msg_data message)"
    and "bm_dataType bm = Some messageHash"
  shows "handleOrderBook safeMarket orderbooks client message =
           (orderbooks(book_symbol safeMarket client message \<mapsto>
              rebuilt_book (book_symbol safeMarket client message) message),
            resolve client (rebuilt_book (book_symbol safeMarket client message) message)
              (''orderbook:'' @ book_symbol safeMarket client message))
       \<and> nonce (rebuilt_book (book_symbol safeMarket client message) message) = None
       \<and> book_ok (rebuilt_book (book_symbol safeMarket client message) message)
       \<and> map_of (levels (asks (rebuilt_book (book_symbol safeMarket client message) message))) =
           foldl apply_pair Map.empty (safeValue (data_a (msg_data message)) [])
       \<and> map_of (levels (bids (rebuilt_book (book_symbol safeMarket client message) message))) =
           foldl apply_pair Map.empty (safeValue (data_b (msg_data message)) [])
       \<and> fst (handleOrderBook safeMarket
                (fst (handleOrderBook safeMarket orderbooks client message))
                (snd (handleOrderBook safeMarket orderbooks client message)) delta)
             (book_symbol safeMarket client message) =
           Some (merged_book (rebuilt_book (book_symbol safeMarket client message) message) delta)
       \<and> map_option (\<lambda>r. fst r (bingx_symbol safeMarket client messageHash))
           (projr_option (bingx_handleOrderBook safeMarket orderbooks client bm)) =
           Some (Some \<lparr>asks = handleDeltas \<lparr>descending = False, levels = []\<rparr>
                               (safeValue (bm_asks bm) []),
                      bids = handleDeltas \<lparr>descending = True, levels = []\<rparr>
                               (safeValue (bm_bids bm) []),
                      timestamp = None, nonce = None,
                      symbol = Some (bingx_symbol safeMarket client messageHash)\<rparr>)"
proof -
  let ?symb = "book_symbol safeMarket client message"
  let ?ob = "rebuilt_book ?symb message"
  let ?r = "handleOrderBook safeMarket orderbooks client message"
  have 1: "?r = (orderbooks(?symb \<mapsto> ?ob), resolve client ?ob (''orderbook:'' @ ?symb))"
    using handleOrderBook_snapshot_rebuilt [OF assms(1,2)] by (simp add: Let_def)
  have 2: "nonce ?ob = None" by (simp add: rebuilt_book_def)
  have 3: "book_ok ?ob" by (rule book_ok_rebuilt)
  have 4: "map_of (levels (asks ?ob)) =
           foldl apply_pair Map.empty (safeValue (data_a (msg_data message)) [])"
    by (simp add: rebuilt_book_def rebuilt_map_of)
  have 5: "map_of (levels (bids ?ob)) =
           foldl apply_pair Map.empty (safeValue (data_b (msg_data message)) [])"
    by (simp add: rebuilt_book_def rebuilt_map_of)
  have s: "book_symbol safeMarket (snd ?r) delta = ?symb"
    using assms(4) by (simp add: book_symbol_def handleOrderBook_url)
  have f: "fst ?r ?symb = Some ?ob" by (simp add: 1)
  have 6: "fst (handleOrderBook safeMarket (fst ?r) (snd ?r) delta) ?symb =
           Some (merged_book ?ob delta)"
    by (simp add: handleOrderBook_delta_eq [OF assms(3)] Let_def s f)
  have 7: "map_option (\<lambda>r. fst r (bingx_symbol safeMarket client messageHash))
           (projr_option (bingx_handleOrderBook safeMarket orderbooks client bm)) =
           Some (Some \<lparr>asks = handleDeltas \<lparr>descending = False, levels = []\<rparr>
                               (safeValue (bm_asks bm) []),
                      bids = handleDeltas \<lparr>descending = True, levels = []\<rparr>
                               (safeValue (bm_bids bm) []),
                      timestamp = None, nonce = None,
                      symbol = Some (bingx_symbol safeMarket client messageHash)\<rparr>)"
    by (simp add: bingx_handleOrderBook_rebuilt [OF assms(5,2)] projr_option_def)
  show ?thesis by (intro conjI; fact)
qed

theorem handleOrderBook_snapshot_rebuilds_witness:
  "fst (handleOrderBook example_safeMarket [''BTC/USDT'' \<mapsto> example_book]
          (example_client :: orderbook client)
          (book_message ''snapshot'' 2000 [(90, 4)] [(95, 6), (94, 0)] 20)) ''BTC/USDT''
   = Some \<lparr>asks = \<lparr>descending = False, levels = [(95, 6)]\<rparr>,
           bids = \<lparr>descending = True, levels = [(90, 4)]\<rparr>,
           timestamp = Some 2000, nonce = None, symbol = Some ''BTC/USDT''\<rparr>"
proof -
  let ?m = "book_message ''snapshot'' 2000 [(90, 4)] [(95, 6), (94, 0)] 20"
  let ?d = "book_message ''delta'' 2001 [(89, 1)] [] 21"
  have t: "msg_type ?m = Some ''snapshot''" by (simp add: book_message_def)
  have "book_ok example_book"
    by (simp add: book_ok_def example_book_def side_ok_def goes_before_def)
  then have p: "\<forall>ob \<in> ran [''BTC/USDT'' \<mapsto> example_book]. book_ok ob" by simp
  have td: "msg_type ?d \<noteq> Some ''snapshot''" by (simp add: book_message_def)
  have sd: "data_s (msg_data ?d) = data_s (msg_data ?m)" by (simp add: book_message_def)
  have bm: "bm_dataType \<lparr>bm_dataType = Some ''BTC-USDT@depth20'', bm_bids = Some [(90, 4)],
                         bm_asks = Some [(95, 6)]\<rparr> = Some ''BTC-USDT@depth20''"
    by simp
  have s: "book_symbol example_safeMarket (example_client :: orderbook client) ?m = ''BTC/USDT''"
    by (simp add: book_symbol_def example_safeMarket_def book_message_def)
  have r: "rebuilt_book ''BTC/USDT'' ?m =
      \<lparr>asks = \<lparr>descending = False, levels = [(95, 6)]\<rparr>,
       bids = \<lparr>descending = True, levels = [(90, 4)]\<rparr>,
       timestamp = Some 2000, nonce = None, symbol = Some ''BTC/USDT''\<rparr>"
    by (simp add: rebuilt_book_def book_message_def safeValue_def
          handleDelta_def storeArray_def store_def parseBidAsk_def goes_before_def)
  show ?thesis
    using handleOrderBook_snapshot_rebuilds
      [where message = ?m and delta = ?d and orderbooks = "[''BTC/USDT'' \<mapsto> example_book]"
         and safeMarket = example_safeMarket
         and client = "example_client :: orderbook client", OF t p td sd bm,
       THEN conjunct1]
    by (simp add: s r)
qed

section \<open>Properties of the bounded caches\<close>

lemma evict_length: "length (evict n xs) \<le> n"
  by (simp add: evict_def)

lemma evict_id: "length xs \<le> n \<Longrightarrow> evict n xs = xs"
  by (simp add: evict_def)

lemma evict_snoc_append: "evict n (evict n xs @ ys) = evict n (xs @ ys)"
  by (cases "length xs \<le> n") (simp_all add: evict_def add.commute)

lemma maxSize_cache_append: "maxSize (cache_append c x) = maxSize c"
  by (simp add: cache_append_def)

lemma foldl_cache_append_maxSize: "maxSize (foldl cache_append c xs) = maxSize c"
  by (induction xs arbitrary: c) (simp_all add: maxSize_cache_append)

lemma foldl_cache_append_items:
  "items (foldl cache_append c xs) = (if xs = [] then items c else evict (maxSize c) (items c @ xs))"
proof (induction xs arbitrary: c)
  case Nil
  then show ?case by simp
next
  case (Cons x xs)
  have "items (foldl cache_append (cache_append c x) xs) =
        (if xs = [] then items (cache_append c x)
         else evict (maxSize c) (items (cache_append c x) @ xs))"
    using Cons.IH [of "cache_append c x"] by (simp add: maxSize_cache_append)
  also have "\<dots> = evict (maxSize c) (items c @ x # xs)"
    using evict_snoc_append [of "maxSize c" "items c @ [x]" xs]
    by (simp add: cache_append_def)
  finally show ?case by simp
qed

lemma replace_key_keys: "map key (replace_key key x xs) = map key xs"
  by (induction xs) auto

lemma replace_key_length: "length (replace_key key x xs) = length xs"
  by (induction xs) auto

lemma upsert_maxSize: "maxSize (upsert key c x) = maxSize c"
  by (simp add: upsert_def cache_append_def)

lemma upsert_length: "length (items (upsert key c x)) \<le> maxSize c"
  by (simp add: upsert_def cache_append_def evict_length)

lemma foldl_upsert_maxSize: "maxSize (foldl (upsert key) c xs) = maxSize c"
  by (induction xs arbitrary: c) (simp_all add: upsert_maxSize)

lemma foldl_upsert_length:
  "length (items c) \<le> maxSize c \<Longrightarrow> length (items (foldl (upsert key) c xs)) \<le> maxSize c"
proof (induction xs arbitrary: c)
  case Nil
  then show ?case by simp
next
  case (Cons x xs)
  have "length (items (upsert key c x)) \<le> maxSize (upsert key c x)"
    by (simp add: upsert_length upsert_maxSize)
  from Cons.IH [OF this] show ?case by (simp add: upsert_maxSize)
qed

lemma map_evict: "map f (evict n xs) = evict n (map f xs)"
  by (simp add: evict_def drop_map)

lemma upsert_keys:
  "map key (items (upsert key c x)) =
     evict (maxSize c) (if key x \<in> set (map key (items c)) then map key (items c)
                        else map key (items c) @ [key x])"
  by (simp add: upsert_def cache_append_def map_evict replace_key_keys)

section \<open>Trade caches and caches by id\<close>

text \<open>
  C4. A trade cache created with limit \<open>n\<close> holds, after any sequence of appends,
  exactly the last \<open>n\<close> appended items in their order: its size never exceeds \<open>n\<close>, what
  is evicted is a prefix of the sequence (the oldest entries), and the order of the
  others is kept. A cache by id never exceeds its limit either, and an upsert leaves the
  sequence of keys as it is when the key is present, appends the key when it is not, and
  then evicts from the front. With limit 3, \<open>handleTrades\<close> on the trades A, B, C, D
  leaves exactly B, C, D, in bybit and in hitbtc.
\<close>

theorem bounded_cache_eviction:
  "items (foldl cache_append (ArrayCache n) xs) = drop (length xs - n) xs
   \<and> length (items (foldl cache_append (ArrayCache n) xs)) \<le> n
   \<and> length (items (foldl (upsert key) (ArrayCacheBySymbolById n) ys)) \<le> n
   \<and> map key (items (upsert key c y)) =
        evict (maxSize c) (if key y \<in> set (map key (items c)) then map key (items c)
                           else map key (items c) @ [key y])
   \<and> handleTrades (\<lambda>raw symb. raw) example_safeMarket (Some 3) Map.empty example_client
        example_trades_message
      = Inr ([''BTC/USDT'' \<mapsto> \<lparr>maxSize = 3, items = [''B'', ''C'', ''D'']\<rparr>], example_client)
   \<and> hitbtc_handleTrades (\<lambda>raw symb. raw) (\<lambda>marketId. ''BTC/USDT'') (Some 3)
        (Map.empty, example_client) [(''BTCUSDT'', [''A'', ''B'']), (''BTCUSDT'', [''C'', ''D''])]
      = ([''BTC/USDT'' \<mapsto> \<lparr>maxSize = 3, items = [''B'', ''C'', ''D'']\<rparr>], example_client)"
proof -
  have 1: "items (foldl cache_append (ArrayCache n) xs) = drop (length xs - n) xs"
    by (simp add: foldl_cache_append_items ArrayCache_def evict_def)
  have 2: "length (items (foldl cache_append (ArrayCache n) xs)) \<le> n"
    by (simp add: 1)
  have 3: "length (items (foldl (upsert key) (ArrayCacheBySymbolById n) ys)) \<le> n"
    using foldl_upsert_length [of "ArrayCacheBySymbolById n" key ys]
    by (simp add: ArrayCacheBySymbolById_def)
  have 4: "map key (items (upsert key c y)) =
        evict (maxSize c) (if key y \<in> set (map key (items c)) then map key (items c)
                           else map key (items c) @ [key y])"
    by (rule upsert_keys)
  have 5: "handleTrades (\<lambda>raw symb. raw) example_safeMarket (Some 3) Map.empty example_client
        example_trades_message
      = Inr ([''BTC/USDT'' \<mapsto> \<lparr>maxSize = 3, items = [''B'', ''C'', ''D'']\<rparr>], example_client)"
    by (simp add: handleTrades_def Let_def example_trades_message_def example_safeMarket_def
          example_client_def split_def safeIndex_def indexOf_def safeValue_def ArrayCache_def
          cache_append_def evict_def resolve_def)
  have 6: "hitbtc_handleTrades (\<lambda>raw symb. raw) (\<lambda>marketId. ''BTC/USDT'') (Some 3)
        (Map.empty, example_client) [(''BTCUSDT'', [''A'', ''B'']), (''BTCUSDT'', [''C'', ''D''])]
      = ([''BTC/USDT'' \<mapsto> \<lparr>maxSize = 3, items = [''B'', ''C'', ''D'']\<rparr>], example_client)"
  proof -
    have r: "\<And>v h. resolve (example_client :: string cache client) v h = example_client"
      by (simp add: resolve_def example_client_def)
    have step: "\<And>trades raw rest.
      hitbtc_handleTrades (\<lambda>raw symb. raw) (\<lambda>marketId. ''BTC/USDT'') (Some 3)
        (trades, example_client :: string cache client) ((''BTCUSDT'', raw) # rest) =
      hitbtc_handleTrades (\<lambda>raw symb. raw) (\<lambda>marketId. ''BTC/USDT'') (Some 3)
        (trades(''BTC/USDT'' \<mapsto> foldl cache_append
            (case trades ''BTC/USDT'' of
               None \<Rightarrow> ArrayCache (safeValue (Some 3) 1000) | Some st \<Rightarrow> st) raw),
         example_client) rest"
      by (simp add: Let_def r)
    have sv: "safeValue (Some (3::nat)) 1000 = 3" by (simp add: safeValue_def)
    show ?thesis
      by (simp only: step) (simp add: sv ArrayCache_def cache_append_def evict_def)
  qed
  show ?thesis by (intro conjI; fact)
qed

section \<open>Candle caches\<close>

lemma appendOrReplaceLast_maxSize: "maxSize (appendOrReplaceLast c x) = maxSize c"
  by (simp add: appendOrReplaceLast_def cache_append_def)

lemma appendOrReplaceLast_length:
  "length (items c) \<le> maxSize c \<Longrightarrow> length (items (appendOrReplaceLast c x)) \<le> maxSize c"
  by (auto simp: appendOrReplaceLast_def cache_append_def evict_length)

lemma sorted_wrt_drop: "sorted_wrt P xs \<Longrightarrow> sorted_wrt P (drop k xs)"
  by (induction xs arbitrary: k) (auto simp: drop_Cons split: nat.splits dest: in_set_dropD)

lemma sorted_evict:
  assumes "sorted_wrt P (map f xs)"
  shows "sorted_wrt P (map f (evict n xs))"
proof -
  have "sorted_wrt P (drop (length xs - n) (map f xs))"
    by (rule sorted_wrt_drop [OF assms])
  then show ?thesis by (simp add: evict_def drop_map)
qed

lemma sorted_wrt_snoc_last:
  assumes "sorted_wrt (<) (map f xs)" "xs \<noteq> []" "f (last xs) < (f y :: int)"
  shows "sorted_wrt (<) (map f (xs @ [y]))"
proof -
  have "\<forall>x \<in> set xs. f x \<le> f (last xs)"
    using assms(1,2)
  proof (induction xs)
    case Nil
    then show ?case by simp
  next
    case (Cons a xs)
    then show ?case by (cases "xs = []") (auto intro: less_imp_le order_trans)
  qed
  then have "\<forall>x \<in> set xs. f x < f y" using assms(3) by fastforce
  then show ?thesis using assms(1) by (simp add: sorted_wrt_append)
qed

lemma sorted_wrt_replace_last:
  assumes "sorted_wrt (<) (map f xs)" "xs \<noteq> []" "f y = (f (last xs) :: int)"
  shows "sorted_wrt (<) (map f (butlast xs @ [y]))"
proof -
  have "map f (butlast xs @ [y]) = map f (butlast xs @ [last xs])"
    using assms(3) by simp
  also have "\<dots> = map f xs" using assms(2) by simp
  finally show ?thesis using assms(1) by simp
qed

lemma appendOrReplaceLast_sorted:
  assumes "sorted_wrt (<) (map o_timestamp (items c))"
  shows "sorted_wrt (<) (map o_timestamp (items (appendOrReplaceLast c x)))"
proof (cases "items c = []")
  case True
  have "sorted_wrt (<) (map o_timestamp (evict (maxSize c) [x]))"
    by (rule sorted_evict) simp
  then show ?thesis
    using True by (simp add: appendOrReplaceLast_def cache_append_def)
next
  case ne: False
  show ?thesis
  proof (cases "o_timestamp x = o_timestamp (last (items c))")
    case True
    then show ?thesis
      using ne sorted_wrt_replace_last [OF assms ne True]
      by (simp add: appendOrReplaceLast_def)
  next
    case neq: False
    show ?thesis
    proof (cases "o_timestamp (last (items c)) < o_timestamp x")
      case True
      have "sorted_wrt (<) (map o_timestamp (evict (maxSize c) (items c @ [x])))"
        by (rule sorted_evict) (rule sorted_wrt_snoc_last [OF assms ne True])
      then show ?thesis
        using ne neq True by (simp add: appendOrReplaceLast_def cache_append_def)
    next
      case False
      then show ?thesis using ne neq assms by (simp add: appendOrReplaceLast_def)
    qed
  qed
qed

text \<open>
  C3. Storing a candle into a non-empty candle cache replaces the last stored candle
  when the timestamps are equal, appends it (evicting from the front when over capacity)
  when its timestamp is greater, and leaves the cache as it is when its timestamp is
  lesser; the size stays within the limit and the stored timestamps stay strictly
  increasing. Through \<open>handleOHLCV\<close>, of bybit and of hitbtc: a candle at \<open>T\<close> with
  close 10, then an update at \<open>T\<close> with close 12, then a candle at \<open>T + 60\<close> leave
  exactly two candles, the one at \<open>T\<close> with close 12 and the one at \<open>T + 60\<close>.
\<close>

theorem ohlcv_append_or_replace:
  assumes "items c \<noteq> []"
    and "sorted_wrt (<) (map o_timestamp (items c))"
    and "length (items c) \<le> maxSize c"
  shows "(o_timestamp x = o_timestamp (last (items c)) \<longrightarrow>
            items (appendOrReplaceLast c x) = butlast (items c) @ [x])
       \<and> (o_timestamp (last (items c)) < o_timestamp x \<longrightarrow>
            items (appendOrReplaceLast c x) =
              drop (Suc (length (items c)) - maxSize c) (items c @ [x]))
       \<and> (o_timestamp x < o_timestamp (last (items c)) \<longrightarrow> appendOrReplaceLast c x = c)
       \<and> length (items (appendOrReplaceLast c x)) \<le> maxSize c
       \<and> sorted_wrt (<) (map o_timestamp (items (appendOrReplaceLast c x)))
       \<and> handleOHLCVs example_findTimeframe example_safeMarket None (Map.empty, example_client)
            [kline_update T 10, kline_update T 12, kline_update (T + 60) 11]
          = Inr ([''BTC/USDT'' \<mapsto> [''5m'' \<mapsto>
                   \<lparr>maxSize = 1000, items = [example_candle T 12, example_candle (T + 60) 11]\<rparr>]],
                 example_client)
       \<and> hitbtc_handleOHLCV (\<lambda>raw symb. raw) (\<lambda>marketId. ''BTC/USDT'') example_findTimeframe
            None (Map.empty, example_client) (Some ''candles/M5'')
            [(''BTCUSDT'', [example_candle T 10, example_candle T 12, example_candle (T + 60) 11])]
          = Inr ([''BTC/USDT'' \<mapsto> [''5m'' \<mapsto>
                   \<lparr>maxSize = 1000, items = [example_candle T 12, example_candle (T + 60) 11]\<rparr>]],
                 example_client)"
proof -
  have 1: "o_timestamp x = o_timestamp (last (items c)) \<longrightarrow>
            items (appendOrReplaceLast c x) = butlast (items c) @ [x]"
    using assms(1) by (simp add: appendOrReplaceLast_def)
  have 2: "o_timestamp (last (items c)) < o_timestamp x \<longrightarrow>
            items (appendOrReplaceLast c x) =
              drop (Suc (length (items c)) - maxSize c) (items c @ [x])"
    using assms(1) by (simp add: appendOrReplaceLast_def cache_append_def evict_def)
  have 3: "o_timestamp x < o_timestamp (last (items c)) \<longrightarrow> appendOrReplaceLast c x = c"
    using assms(1) by (simp add: appendOrReplaceLast_def)
  have 4: "length (items (appendOrReplaceLast c x)) \<le> maxSize c"
    using assms(3) by (rule appendOrReplaceLast_length)
  have 5: "sorted_wrt (<) (map o_timestamp (items (appendOrReplaceLast c x)))"
    using assms(2) by (rule appendOrReplaceLast_sorted)
  have 6: "handleOHLCVs example_findTimeframe example_safeMarket None (Map.empty, example_client)
            [kline_update T 10, kline_update T 12, kline_update (T + 60) 11]
          = Inr ([''BTC/USDT'' \<mapsto> [''5m'' \<mapsto>
                   \<lparr>maxSize = 1000, items = [example_candle T 12, example_candle (T + 60) 11]\<rparr>]],
                 example_client)"
    by (simp add: handleOHLCV_def Let_def kline_update_def example_findTimeframe_def
          example_safeMarket_def example_client_def example_candle_def split_def safeIndex_def
          indexOf_def safeValue_def ArrayCacheByTimestamp_def appendOrReplaceLast_def
          cache_append_def evict_def resolve_def parseWsOHLCV_def)
  have 7: "hitbtc_handleOHLCV (\<lambda>raw symb. raw) (\<lambda>marketId. ''BTC/USDT'') example_findTimeframe
            None (Map.empty, example_client) (Some ''candles/M5'')
            [(''BTCUSDT'', [example_candle T 10, example_candle T 12, example_candle (T + 60) 11])]
          = Inr ([''BTC/USDT'' \<mapsto> [''5m'' \<mapsto>
                   \<lparr>maxSize = 1000, items = [example_candle T 12, example_candle (T + 60) 11]\<rparr>]],
                 example_client)"
    by (simp add: hitbtc_handleOHLCV_def Let_def example_findTimeframe_def
          example_client_def example_candle_def split_def safeIndex_def
          safeValue_def ArrayCacheByTimestamp_def appendOrReplaceLast_def
          cache_append_def evict_def resolve_def)
  show ?thesis by (intro conjI; fact)
qed

theorem ohlcv_append_or_replace_witness:
  "items (appendOrReplaceLast \<lparr>maxSize = 2, items = [example_candle 60 10, example_candle 120 11]\<rparr>
            (example_candle 120 12)) = [example_candle 60 10, example_candle 120 12]
   \<and> items (appendOrReplaceLast \<lparr>maxSize = 2, items = [example_candle 60 10, example_candle 120 11]\<rparr>
            (example_candle 180 12)) = [example_candle 120 11, example_candle 180 12]
   \<and> items (appendOrReplaceLast \<lparr>maxSize = 2, items = [example_candle 60 10, example_candle 120 11]\<rparr>
            (example_candle 90 12)) = [example_candle 60 10, example_candle 120 11]"
proof -
  let ?c = "\<lparr>maxSize = 2, items = [example_candle 60 10, example_candle 120 11]\<rparr>"
  have a: "items ?c \<noteq> []" by simp
  have b: "sorted_wrt (<) (map o_timestamp (items ?c))" by (simp add: example_candle_def)
  have c: "length (items ?c) \<le> maxSize ?c" by simp
  show ?thesis
    using ohlcv_append_or_replace [OF a b c, of "example_candle 120 12"]
      ohlcv_append_or_replace [OF a b c, of "example_candle 180 12"]
      ohlcv_append_or_replace [OF a b c, of "example_candle 90 12"]
    by (simp add: example_candle_def)
qed

section \<open>hitbtc: the speed of the order book channel\<close>



section \<open>Properties of the authentication handshake\<close>

lemma future_subscriptions: "subscriptions (snd (future c h)) = subscriptions c"
  by (simp add: future_def split: option.splits)

lemma future_outbox: "outbox (snd (future c h)) = outbox c"
  by (simp add: future_def split: option.splits)

lemma future_registered: "map_of (futures (snd (future c h))) h = Some (fst (future c h))"
  by (simp add: future_def map_add_def split: option.splits)

lemma future_again: "map_of (futures c) h = Some f \<Longrightarrow> future c h = (f, c)"
  by (simp add: future_def)

lemma future_pending:
  "auth_future_pending c \<Longrightarrow>
   fst (future c ''authenticated'') < length (settled (snd (future c ''authenticated'')))
   \<and> settled (snd (future c ''authenticated'')) ! fst (future c ''authenticated'') = Pending"
  by (auto simp: auth_future_pending_def future_def nth_append split: option.splits)

lemma authenticate_first:
  assumes "subscriptions c ''authenticated'' = None"
  shows "authenticate None hmac toString creds params t c =
     Inr (fst (future c ''authenticated''),
          (snd (future c ''authenticated''))
            \<lparr>subscriptions := (subscriptions c)(''authenticated'' \<mapsto> True),
             outbox := outbox c @ [extend_object (auth_request hmac toString creds t) params]\<rparr>)"
proof -
  obtain f c1 where fc: "future c ''authenticated'' = (f, c1)" by (cases "future c ''authenticated''")
  have s1: "subscriptions c1 = subscriptions c" using future_subscriptions [of c "''authenticated''"] fc by simp
  have o1: "outbox c1 = outbox c" using future_outbox [of c "''authenticated''"] fc by simp
  have "map_of (futures c1) ''authenticated'' = Some f"
    using future_registered [of c "''authenticated''"] fc by simp
  then have again: "future c1 ''authenticated'' = (f, c1)" by (rule future_again)
  show ?thesis
    using assms by (simp add: authenticate_def watch_def fc again s1 o1 Let_def)
qed

lemma authenticate_again:
  assumes "subscriptions c ''authenticated'' = Some b" "map_of (futures c) ''authenticated'' = Some f"
  shows "authenticate None hmac toString creds params t c = Inr (f, c)"
  using assms by (simp add: authenticate_def future_again Let_def)

lemma authenticate_calls_again:
  assumes "subscriptions c ''authenticated'' = Some b" "map_of (futures c) ''authenticated'' = Some f"
  shows "authenticate_calls (authenticate None hmac toString creds params) ts c =
           (replicate (length ts) (Inr f), c)"
  by (induction ts) (simp_all add: authenticate_again [OF assms])

lemma hitbtc_authenticate_first:
  assumes "subscriptions c ''authenticated'' = None"
  shows "hitbtc_authenticate None hmac toString creds t c =
     Inr (fst (future c ''authenticated''),
          (snd (future c ''authenticated''))
            \<lparr>subscriptions := (subscriptions c)(''authenticated'' \<mapsto> True),
             outbox := outbox c @ [login_request hmac toString creds t]\<rparr>)"
proof -
  obtain f c1 where fc: "future c ''authenticated'' = (f, c1)" by (cases "future c ''authenticated''")
  have s1: "subscriptions c1 = subscriptions c" using future_subscriptions [of c "''authenticated''"] fc by simp
  have o1: "outbox c1 = outbox c" using future_outbox [of c "''authenticated''"] fc by simp
  have "map_of (futures c1) ''authenticated'' = Some f"
    using future_registered [of c "''authenticated''"] fc by simp
  then have again: "future c1 ''authenticated'' = (f, c1)" by (rule future_again)
  show ?thesis
    using assms by (simp add: hitbtc_authenticate_def watch_def fc again s1 o1 Let_def)
qed

lemma hitbtc_authenticate_again:
  assumes "subscriptions c ''authenticated'' = Some b" "map_of (futures c) ''authenticated'' = Some f"
  shows "hitbtc_authenticate None hmac toString creds t c = Inr (f, c)"
  using assms by (simp add: hitbtc_authenticate_def future_again Let_def)

lemma hitbtc_authenticate_calls_again:
  assumes "subscriptions c ''authenticated'' = Some b" "map_of (futures c) ''authenticated'' = Some f"
  shows "authenticate_calls (hitbtc_authenticate None hmac toString creds) ts c =
           (replicate (length ts) (Inr f), c)"
  by (induction ts) (simp_all add: hitbtc_authenticate_again [OF assms])

lemma handleAuthenticate_success:
  assumes "m_success message = Some True" "map_of (futures c) ''authenticated'' = Some f"
    "f < length (settled c)" "settled c ! f = Pending"
  shows "handleAuthenticate ident json c message = Inr (c\<lparr>settled := (settled c)[f := Resolved True]\<rparr>)"
  using assms by (simp add: handleAuthenticate_def handleAuthenticate_on_def settle_def)

lemma map_of_filter_other:
  "h \<noteq> a \<Longrightarrow> map_of (filter (\<lambda>e. fst e \<noteq> h) xs) a = map_of xs a"
  by (induction xs) auto

lemma resolve_keeps_other:
  "h \<noteq> a \<Longrightarrow> map_of (futures (resolve c v h)) a = map_of (futures c) a"
  by (simp add: resolve_def map_of_filter_other split: option.splits)

lemma resolve_subscriptions: "subscriptions (resolve c v h) = subscriptions c"
  by (simp add: resolve_def split: option.splits)

lemma authenticate_fresh:
  assumes "subscriptions c ''authenticated'' = Some b" "map_of (futures c) ''authenticated'' = None"
  shows "authenticate None hmac toString creds params t c =
     Inr (length (settled c),
          c\<lparr>futures := futures c @ [(''authenticated'', length (settled c))],
            settled := settled c @ [Pending]\<rparr>)"
  using assms by (simp add: authenticate_def future_def Let_def)

text \<open>
  C7, as stated, fails in one part: a later call does not always return the same future
  as the first. After the first call, a response that rejects a subscribe request
  rejects every future of the connection; the next call, still before any login
  response, sends nothing and returns another future.
\<close>

theorem authenticate_shared_future_counterexample:
  "authenticate None example_hmac example_toString example_credentials [] 1000
     (example_client\<lparr>url := ''wss://stream.bybit.com/v5/private''\<rparr>) = Inr (0, awaiting_login)
   \<and> handleMessage ''bybit'' (\<lambda>m. ''{}'') Map.empty (\<lambda>key c m. Inr c) awaiting_login
         subscribe_error = Inr after_subscribe_error
   \<and> authenticate None example_hmac example_toString example_credentials [] 2000
         after_subscribe_error
       = Inr (1, after_subscribe_error
                   \<lparr>futures := [(''authenticated'', 1)],
                    settled :=
                      [Rejected (ExchangeError
                         ''bybit error:handler not found,topic:orderbook.50.BTCUSD''),
                       Pending]\<rparr>)"
proof -
  have 1: "authenticate None example_hmac example_toString example_credentials [] 1000
     (example_client\<lparr>url := ''wss://stream.bybit.com/v5/private''\<rparr>) = Inr (0, awaiting_login)"
    by (simp add: authenticate_def watch_def future_def example_client_def awaiting_login_def
          extend_object_def auth_request_def example_hmac_def example_toString_def
          example_credentials_def Let_def)
  have 2: "handleMessage ''bybit'' (\<lambda>m. ''{}'') Map.empty (\<lambda>key c m. Inr c) awaiting_login
         subscribe_error = Inr after_subscribe_error"
    by (simp add: handleMessage_def handleErrorMessage_def handleErrorMessage_raises_def
          subscribe_error_def after_subscribe_error_def awaiting_login_def safeValue_def
          reject_def settle_def Let_def)
  have 3: "authenticate None example_hmac example_toString example_credentials [] 2000
         after_subscribe_error
       = Inr (1, after_subscribe_error
                   \<lparr>futures := [(''authenticated'', 1)],
                    settled :=
                      [Rejected (ExchangeError
                         ''bybit error:handler not found,topic:orderbook.50.BTCUSD''),
                       Pending]\<rparr>)"
    by (simp add: authenticate_def future_def after_subscribe_error_def awaiting_login_def
          Let_def)
  show ?thesis by (intro conjI; fact)
qed

text \<open>
  C7, amended. A call of \<open>authenticate\<close> made while the connection has no
  \<open>authenticated\<close> subscription sends one login frame and records the subscription. The
  frame of bybit is \<open>{op: 'auth', args: [apiKey, expires, signature]}\<close> extended by the
  params, with \<open>expires\<close> the clock plus 10000 and the signature the HMAC of
  \<open>'GET/realtime' + expires\<close> under the secret; the frame of hitbtc is \<open>{method: 'login',
  params: {type: 'HS256', api_key, timestamp, signature}}\<close> with the signature the HMAC of
  the timestamp under the secret. Every call made while the subscription exists sends
  nothing and returns the future registered under \<open>authenticated\<close>: the same future as the
  first call while it stays registered (calls back to back, calls after another hash was
  resolved), a fresh pending future once a rejection has removed it. So any number of
  calls issued back to back leave exactly one login frame in the outbox, and the one
  login response that reports success resolves the future that all of them hold. A call
  whose credentials check fails raises and leaves the connection as it is.
\<close>

theorem authenticate_sends_one_login:
  assumes "subscriptions client ''authenticated'' = None"
    and "auth_future_pending client"
    and "m_success message = Some True"
    and "subscriptions later ''authenticated'' = Some b"
    and "map_of (futures later) ''authenticated'' = Some f"
    and "h \<noteq> ''authenticated''"
    and "subscriptions removed ''authenticated'' = Some b'"
    and "map_of (futures removed) ''authenticated'' = None"
  shows "fst (authenticate_calls (authenticate None hmac toString creds params) (t # ts) client)
           = replicate (Suc (length ts)) (Inr (fst (future client ''authenticated'')))
       \<and> outbox (snd (authenticate_calls (authenticate None hmac toString creds params)
                       (t # ts) client))
           = outbox client @
               [extend_object
                 [(''op'', JStr ''auth''),
                  (''args'', JArr [apiKey creds, toString (t + 10000),
                                   hmac (''GET/realtime'' @ toString (t + 10000))
                                     (secret creds)])]
                 params]
       \<and> (\<exists>c. handleAuthenticate ident json
                 (snd (authenticate_calls (authenticate None hmac toString creds params)
                        (t # ts) client)) message = Inr c
              \<and> settled c ! fst (future client ''authenticated'') = Resolved True
              \<and> outbox c = outbox client @
               [extend_object
                 [(''op'', JStr ''auth''),
                  (''args'', JArr [apiKey creds, toString (t + 10000),
                                   hmac (''GET/realtime'' @ toString (t + 10000))
                                     (secret creds)])]
                 params])
       \<and> fst (authenticate_calls (hitbtc_authenticate None hmac toString creds) (t # ts) client)
           = replicate (Suc (length ts)) (Inr (fst (future client ''authenticated'')))
       \<and> outbox (snd (authenticate_calls (hitbtc_authenticate None hmac toString creds)
                       (t # ts) client))
           = outbox client @
               [[(''method'', JStr ''login''),
                 (''params'', JObj [(''type'', JStr ''HS256''),
                                   (''api_key'', JStr (apiKey creds)),
                                   (''timestamp'', JInt t),
                                   (''signature'', JStr (hmac (toString t) (secret creds)))])]]
       \<and> extend_object (auth_request hmac toString creds t) [] =
           [(''op'', JStr ''auth''),
            (''args'', JArr [apiKey creds, toString (t + 10000),
                             hmac (''GET/realtime'' @ toString (t + 10000)) (secret creds)])]
       \<and> subscriptions (snd (authenticate_calls (authenticate None hmac toString creds params)
                               (t # ts) client)) ''authenticated'' = Some True
       \<and> map_of (futures (snd (authenticate_calls (authenticate None hmac toString creds params)
                                 (t # ts) client))) ''authenticated''
           = Some (fst (future client ''authenticated''))
       \<and> authenticate None hmac toString creds params t' later = Inr (f, later)
       \<and> hitbtc_authenticate None hmac toString creds t' later = Inr (f, later)
       \<and> authenticate None hmac toString creds params t' (resolve later v h)
           = Inr (f, resolve later v h)
       \<and> authenticate None hmac toString creds params t' removed
           = Inr (length (settled removed),
                  removed\<lparr>futures := futures removed @ [(''authenticated'', length (settled removed))],
                          settled := settled removed @ [Pending]\<rparr>)
       \<and> authenticate (Some e) hmac toString creds params t' client = Inl e
       \<and> hitbtc_authenticate (Some e) hmac toString creds t' client = Inl e"
proof -
  let ?h = "''authenticated''"
  let ?f = "fst (future client ?h)"
  let ?frame = "extend_object
                 [(''op'', JStr ''auth''),
                  (''args'', JArr [apiKey creds, toString (t + 10000),
                                   hmac (''GET/realtime'' @ toString (t + 10000))
                                     (secret creds)])]
                 params"
  let ?login = "[(''method'', JStr ''login''),
                 (''params'', JObj [(''type'', JStr ''HS256''),
                                   (''api_key'', JStr (apiKey creds)),
                                   (''timestamp'', JInt t),
                                   (''signature'', JStr (hmac (toString t) (secret creds)))])]"
  have fq: "extend_object (auth_request hmac toString creds t) params = ?frame"
    by (simp add: auth_request_def Let_def)
  have lq: "login_request hmac toString creds t = ?login"
    by (simp add: login_request_def Let_def)
  let ?c1 = "(snd (future client ?h))
               \<lparr>subscriptions := (subscriptions client)(?h \<mapsto> True),
                outbox := outbox client @ [?frame]\<rparr>"
  let ?d1 = "(snd (future client ?h))
               \<lparr>subscriptions := (subscriptions client)(?h \<mapsto> True),
                outbox := outbox client @ [?login]\<rparr>"
  have first: "authenticate None hmac toString creds params t client = Inr (?f, ?c1)"
    using authenticate_first [OF assms(1), of hmac toString creds params t] by (simp only: fq)
  have sub: "subscriptions ?c1 ?h = Some True" by simp
  have reg: "map_of (futures ?c1) ?h = Some ?f" by (simp add: future_registered)
  have rest: "authenticate_calls (authenticate None hmac toString creds params) ts ?c1 =
                (replicate (length ts) (Inr ?f), ?c1)"
    by (rule authenticate_calls_again [OF sub reg])
  have calls: "authenticate_calls (authenticate None hmac toString creds params) (t # ts) client =
                 (replicate (Suc (length ts)) (Inr ?f), ?c1)"
    by (simp only: authenticate_calls.simps first rest sum.case prod.case Let_def
          replicate.simps)
  have pend: "?f < length (settled ?c1) \<and> settled ?c1 ! ?f = Pending"
    using future_pending [OF assms(2)] by simp
  have ack: "handleAuthenticate ident json ?c1 message =
               Inr (?c1\<lparr>settled := (settled ?c1)[?f := Resolved True]\<rparr>)"
    using pend by (intro handleAuthenticate_success [OF assms(3) reg]) simp_all
  have 1: "fst (authenticate_calls (authenticate None hmac toString creds params) (t # ts) client)
           = replicate (Suc (length ts)) (Inr ?f)"
    by (simp only: calls fst_conv)
  have 2: "outbox (snd (authenticate_calls (authenticate None hmac toString creds params)
                       (t # ts) client)) = outbox client @ [?frame]"
    by (simp only: calls snd_conv) simp
  have 3: "\<exists>c. handleAuthenticate ident json
                 (snd (authenticate_calls (authenticate None hmac toString creds params)
                        (t # ts) client)) message = Inr c
              \<and> settled c ! ?f = Resolved True \<and> outbox c = outbox client @ [?frame]"
  proof (intro exI conjI)
    show "handleAuthenticate ident json
            (snd (authenticate_calls (authenticate None hmac toString creds params)
                   (t # ts) client)) message
          = Inr (?c1\<lparr>settled := (settled ?c1)[?f := Resolved True]\<rparr>)"
      by (simp only: calls snd_conv ack)
    show "settled (?c1\<lparr>settled := (settled ?c1)[?f := Resolved True]\<rparr>) ! ?f = Resolved True"
      using pend by simp
    show "outbox (?c1\<lparr>settled := (settled ?c1)[?f := Resolved True]\<rparr>) = outbox client @ [?frame]"
      by simp
  qed
  have hfirst: "hitbtc_authenticate None hmac toString creds t client = Inr (?f, ?d1)"
    using hitbtc_authenticate_first [OF assms(1), of hmac toString creds t] by (simp only: lq)
  have hsub: "subscriptions ?d1 ?h = Some True" by simp
  have hreg: "map_of (futures ?d1) ?h = Some ?f" by (simp add: future_registered)
  have hrest: "authenticate_calls (hitbtc_authenticate None hmac toString creds) ts ?d1 =
                (replicate (length ts) (Inr ?f), ?d1)"
    by (rule hitbtc_authenticate_calls_again [OF hsub hreg])
  have hcalls: "authenticate_calls (hitbtc_authenticate None hmac toString creds) (t # ts) client =
                 (replicate (Suc (length ts)) (Inr ?f), ?d1)"
    by (simp only: authenticate_calls.simps hfirst hrest sum.case prod.case Let_def
          replicate.simps)
  have 4: "fst (authenticate_calls (hitbtc_authenticate None hmac toString creds) (t # ts) client)
           = replicate (Suc (length ts)) (Inr ?f)"
    by (simp only: hcalls fst_conv)
  have 5: "outbox (snd (authenticate_calls (hitbtc_authenticate None hmac toString creds)
                       (t # ts) client)) = outbox client @ [?login]"
    by (simp only: hcalls snd_conv) simp
  have 7: "extend_object (auth_request hmac toString creds t) [] =
           [(''op'', JStr ''auth''),
            (''args'', JArr [apiKey creds, toString (t + 10000),
                             hmac (''GET/realtime'' @ toString (t + 10000)) (secret creds)])]"
    by (simp add: auth_request_def extend_object_def Let_def)
  have 9: "subscriptions (snd (authenticate_calls (authenticate None hmac toString creds params)
                               (t # ts) client)) ''authenticated'' = Some True"
    by (simp only: calls snd_conv sub)
  have 10: "map_of (futures (snd (authenticate_calls (authenticate None hmac toString creds params)
                                 (t # ts) client))) ''authenticated'' = Some ?f"
    by (simp only: calls snd_conv reg)
  have 11: "authenticate None hmac toString creds params t' later = Inr (f, later)"
    by (rule authenticate_again [OF assms(4,5)])
  have 12: "hitbtc_authenticate None hmac toString creds t' later = Inr (f, later)"
    by (rule hitbtc_authenticate_again [OF assms(4,5)])
  have rs: "subscriptions (resolve later v h) ''authenticated'' = Some b"
    using assms(4) by (simp add: resolve_subscriptions)
  have rf: "map_of (futures (resolve later v h)) ''authenticated'' = Some f"
    using assms(5) resolve_keeps_other [OF assms(6), of later v] by simp
  have 13: "authenticate None hmac toString creds params t' (resolve later v h)
           = Inr (f, resolve later v h)"
    by (rule authenticate_again [OF rs rf])
  have 14: "authenticate None hmac toString creds params t' removed
           = Inr (length (settled removed),
                  removed\<lparr>futures := futures removed @ [(''authenticated'', length (settled removed))],
                          settled := settled removed @ [Pending]\<rparr>)"
    by (rule authenticate_fresh [OF assms(7,8)])
  have 15: "authenticate (Some e) hmac toString creds params t' client = Inl e"
    by (simp add: authenticate_def)
  have 16: "hitbtc_authenticate (Some e) hmac toString creds t' client = Inl e"
    by (simp add: hitbtc_authenticate_def)
  show ?thesis by (intro conjI; fact)
qed

theorem authenticate_sends_one_login_witness:
  "fst (authenticate_calls
          (authenticate None example_hmac example_toString example_credentials [])
          [1000, 1005] (example_client :: bool client)) = [Inr 0, Inr 0]
   \<and> outbox (snd (authenticate_calls
          (authenticate None example_hmac example_toString example_credentials [])
          [1000, 1005] (example_client :: bool client)))
       = [[(''op'', JStr ''auth''),
           (''args'', JArr [''key'', ''11000'', ''hmac(GET/realtime11000,secret)''])]]
   \<and> outbox (snd (authenticate_calls
          (hitbtc_authenticate None example_hmac example_numberToString example_credentials)
          [1000, 1005] (example_client :: bool client)))
       = [[(''method'', JStr ''login''),
           (''params'', JObj [(''type'', JStr ''HS256''), (''api_key'', JStr ''key''),
                             (''timestamp'', JInt 1000),
                             (''signature'', JStr ''hmac(1000,secret)'')])]]
   \<and> authenticate None example_hmac example_toString example_credentials [] 2000 awaiting_login
       = Inr (0, awaiting_login)
   \<and> authenticate None example_hmac example_toString example_credentials [] 2000
         (resolve awaiting_login True ''orders'')
       = Inr (0, resolve awaiting_login True ''orders'')
   \<and> authenticate None example_hmac example_toString example_credentials [] 2000
         after_subscribe_error
       = Inr (1, after_subscribe_error
                   \<lparr>futures := [(''authenticated'', 1)],
                    settled :=
                      [Rejected (ExchangeError
                         ''bybit error:handler not found,topic:orderbook.50.BTCUSD''),
                       Pending]\<rparr>)"
proof -
  have a: "subscriptions (example_client :: bool client) ''authenticated'' = None"
    by (simp add: example_client_def)
  have b: "auth_future_pending (example_client :: bool client)"
    by (simp add: auth_future_pending_def example_client_def)
  have c: "m_success auth_success = Some True" by (simp add: auth_success_def)
  have d: "subscriptions awaiting_login ''authenticated'' = Some True"
    by (simp add: awaiting_login_def)
  have e: "map_of (futures awaiting_login) ''authenticated'' = Some 0"
    by (simp add: awaiting_login_def)
  have g: "''orders'' \<noteq> ''authenticated''" by simp
  have i: "subscriptions after_subscribe_error ''authenticated'' = Some True"
    by (simp add: after_subscribe_error_def awaiting_login_def)
  have j: "map_of (futures after_subscribe_error) ''authenticated'' = None"
    by (simp add: after_subscribe_error_def)
  have f: "fst (future (example_client :: bool client) ''authenticated'') = 0"
    by (simp add: future_def example_client_def)
  have o: "outbox (example_client :: bool client) = []" by (simp add: example_client_def)
  note w = authenticate_sends_one_login
      [where client = "example_client :: bool client" and message = auth_success
         and later = awaiting_login and b = True and f = 0 and h = "''orders''"
         and removed = after_subscribe_error and b' = True
         and hmac = example_hmac and toString = example_toString
         and creds = example_credentials and params = "[]" and t = 1000 and ts = "[1005]"
         and t' = 2000 and v = True,
       OF a b c d e g i j]
  note wh = authenticate_sends_one_login
      [where client = "example_client :: bool client" and message = auth_success
         and later = awaiting_login and b = True and f = 0 and h = "''orders''"
         and removed = after_subscribe_error and b' = True
         and hmac = example_hmac and toString = example_numberToString
         and creds = example_credentials and params = "[]" and t = 1000 and ts = "[1005]"
         and t' = 2000 and v = True,
       OF a b c d e g i j]
  have 1: "fst (authenticate_calls
          (authenticate None example_hmac example_toString example_credentials [])
          [1000, 1005] (example_client :: bool client)) = [Inr 0, Inr 0]"
    using w [THEN conjunct1] by (simp add: f)
  have 2: "outbox (snd (authenticate_calls
          (authenticate None example_hmac example_toString example_credentials [])
          [1000, 1005] (example_client :: bool client)))
       = [[(''op'', JStr ''auth''),
           (''args'', JArr [''key'', ''11000'', ''hmac(GET/realtime11000,secret)''])]]"
    using w [THEN conjunct2, THEN conjunct1]
    by (simp add: o extend_object_def example_hmac_def example_toString_def
          example_credentials_def)
  have 3: "outbox (snd (authenticate_calls
          (hitbtc_authenticate None example_hmac example_numberToString example_credentials)
          [1000, 1005] (example_client :: bool client)))
       = [[(''method'', JStr ''login''),
           (''params'', JObj [(''type'', JStr ''HS256''), (''api_key'', JStr ''key''),
                             (''timestamp'', JInt 1000),
                             (''signature'', JStr ''hmac(1000,secret)'')])]]"
    using wh [THEN conjunct2, THEN conjunct2, THEN conjunct2, THEN conjunct2, THEN conjunct1]
    by (simp add: o example_hmac_def example_numberToString_def example_credentials_def)
  have 4: "authenticate None example_hmac example_toString example_credentials [] 2000
             awaiting_login = Inr (0, awaiting_login)"
    using w [THEN conjunct2, THEN conjunct2, THEN conjunct2, THEN conjunct2, THEN conjunct2,
             THEN conjunct2, THEN conjunct2, THEN conjunct2, THEN conjunct1]
    by simp
  have 5: "authenticate None example_hmac example_toString example_credentials [] 2000
         (resolve awaiting_login True ''orders'')
       = Inr (0, resolve awaiting_login True ''orders'')"
    using w [THEN conjunct2, THEN conjunct2, THEN conjunct2, THEN conjunct2, THEN conjunct2,
             THEN conjunct2, THEN conjunct2, THEN conjunct2, THEN conjunct2, THEN conjunct2,
             THEN conjunct1]
    by simp
  have 6: "authenticate None example_hmac example_toString example_credentials [] 2000
         after_subscribe_error
       = Inr (1, after_subscribe_error
                   \<lparr>futures := [(''authenticated'', 1)],
                    settled :=
                      [Rejected (ExchangeError
                         ''bybit error:handler not found,topic:orderbook.50.BTCUSD''),
                       Pending]\<rparr>)"
    using w [THEN conjunct2, THEN conjunct2, THEN conjunct2, THEN conjunct2, THEN conjunct2,
             THEN conjunct2, THEN conjunct2, THEN conjunct2, THEN conjunct2, THEN conjunct2,
             THEN conjunct2, THEN conjunct1]
    by (simp add: after_subscribe_error_def awaiting_login_def)
  show ?thesis by (intro conjI; fact)
qed

section \<open>Errors and the waiters of a connection\<close>

lemma settle_length: "length (settle r f st) = length st"
  by (simp add: settle_def)

lemma settle_nth:
  "g < length st \<Longrightarrow>
   settle r f st ! g = (if g = f \<and> st ! g = Pending then r else st ! g)"
  by (auto simp: settle_def)

lemma foldl_settle_length:
  "length (foldl (\<lambda>states e. settle r (snd e) states) st fs) = length st"
  by (induction fs arbitrary: st) (simp_all add: settle_length)

lemma foldl_settle_nth:
  "g < length st \<Longrightarrow>
   foldl (\<lambda>states e. settle r (snd e) states) st fs ! g =
     (if g \<in> snd ` set fs \<and> st ! g = Pending then r else st ! g)"
proof (induction fs arbitrary: st)
  case Nil
  then show ?case by simp
next
  case (Cons e fs)
  have len: "g < length (settle r (snd e) st)" using Cons.prems by (simp add: settle_length)
  show ?case
    using Cons.IH [OF len] Cons.prems
    by (auto simp: settle_nth)
qed

lemma reject_all_futures: "futures (reject c error None) = []"
  by (simp add: reject_def)

lemma reject_all_settled:
  "g < length (settled c) \<Longrightarrow>
   settled (reject c error None) ! g =
     (if g \<in> snd ` set (futures c) \<and> settled c ! g = Pending then Rejected error
      else settled c ! g)"
  by (simp add: reject_def foldl_settle_nth)

lemma filter_absent_key: "map_of xs h = None \<Longrightarrow> filter (\<lambda>e. fst e \<noteq> h) xs = xs"
  by (induction xs) (auto split: if_splits)

lemma reject_one_futures:
  "futures (reject c error (Some h)) = filter (\<lambda>e. fst e \<noteq> h) (futures c)"
  by (simp add: reject_def filter_absent_key split: option.splits)

lemma handleErrorMessage_futures:
  "futures (snd (handleErrorMessage ident json exact client m)) =
     (case handleErrorMessage_raises ident json exact m of
        None \<Rightarrow> futures client
      | Some e \<Rightarrow>
          if instanceof_AuthenticationError e
          then filter (\<lambda>w. fst w \<noteq> ''authenticated'') (futures client) else [])"
  by (simp add: handleErrorMessage_def reject_one_futures reject_all_futures Let_def
        split: option.splits)

text \<open>
  C9, as stated, fails: the response that rejects one subscribe request rejects the
  waiters of both message hashes of the connection.
\<close>

theorem handleErrorMessage_all_waiters_counterexample:
  "handleErrorMessage ''bybit'' (\<lambda>m. []) Map.empty (two_waiters :: orderbook client)
     subscribe_error
   = (True, two_waiters
       \<lparr>futures := [],
        settled :=
          [Rejected (ExchangeError ''bybit error:handler not found,topic:orderbook.50.BTCUSD''),
           Rejected (ExchangeError ''bybit error:handler not found,topic:orderbook.50.BTCUSD'')]\<rparr>)"
  by (simp add: handleErrorMessage_def handleErrorMessage_raises_def subscribe_error_def
        two_waiters_def safeValue_def reject_def settle_def Let_def)

lemma reject_length: "length (settled (reject c error h)) = length (settled c)"
  by (simp add: reject_def settle_length foldl_settle_length split: option.splits)

lemma reject_subscriptions: "subscriptions (reject c error h) = subscriptions c"
  by (simp add: reject_def split: option.splits)

lemma reject_outbox: "outbox (reject c error h) = outbox c"
  by (simp add: reject_def split: option.splits)

lemma reject_one_settled:
  "g < length (settled c) \<Longrightarrow>
   settled (reject c error (Some h)) ! g =
     (if map_of (futures c) h = Some g \<and> settled c ! g = Pending then Rejected error
      else settled c ! g)"
  by (auto simp: reject_def settle_nth split: option.splits)

text \<open>
  C9, amended: when the error handler finds an error in a message and the exception is
  not an \<open>AuthenticationError\<close>, it rejects without a message hash: every pending future
  registered on the connection is rejected with that exception, whichever request the
  error answers, the futures that are not pending or not registered keep their state,
  the table of futures is emptied and the subscriptions stay. The handler of bingx
  rejects without a hash as well. Only an \<open>AuthenticationError\<close> is delivered to one hash:
  the future registered under \<open>authenticated\<close> is rejected with it when pending, every
  other future keeps its state and its place in the table, and the \<open>authenticated\<close>
  subscription is removed. In both cases the handler reports the message as handled and
  sends nothing.
\<close>

theorem handleErrorMessage_rejects_every_waiter:
  assumes "handleErrorMessage_raises ident json exact message = Some error"
    and "\<not> instanceof_AuthenticationError error"
    and "(h, f) \<in> set (futures client)"
    and "f < length (settled client)"
    and "settled client ! f = Pending"
    and "exact' cd = Some cls"
    and "handleErrorMessage_raises ident json exact auth_message = Some auth_error"
    and "instanceof_AuthenticationError auth_error"
    and "g < length (settled client)"
  shows "handleErrorMessage ident json exact client message = (True, reject client error None)
       \<and> futures (snd (handleErrorMessage ident json exact client message)) = []
       \<and> settled (snd (handleErrorMessage ident json exact client message)) ! f = Rejected error
       \<and> bingx_handleErrorMessage ident' jm exact' client (Some cd) =
           (True, reject client (TableError (fst cls) (snd cls) (ident' @ '' '' @ jm)) None)
       \<and> settled (snd (bingx_handleErrorMessage ident' jm exact' client (Some cd))) ! f =
           Rejected (TableError (fst cls) (snd cls) (ident' @ '' '' @ jm))
       \<and> futures (snd (handleErrorMessage ident json exact client m)) =
           (case handleErrorMessage_raises ident json exact m of
              None \<Rightarrow> futures client
            | Some e \<Rightarrow>
                if instanceof_AuthenticationError e
                then filter (\<lambda>w. fst w \<noteq> ''authenticated'') (futures client) else [])
       \<and> settled (snd (handleErrorMessage ident json exact client message)) ! g =
           (if g \<in> snd ` set (futures client) \<and> settled client ! g = Pending
            then Rejected error else settled client ! g)
       \<and> length (settled (snd (handleErrorMessage ident json exact client message))) =
           length (settled client)
       \<and> subscriptions (snd (handleErrorMessage ident json exact client message)) =
           subscriptions client
       \<and> outbox (snd (handleErrorMessage ident json exact client message)) = outbox client
       \<and> fst (handleErrorMessage ident json exact client auth_message) = True
       \<and> futures (snd (handleErrorMessage ident json exact client auth_message)) =
           filter (\<lambda>w. fst w \<noteq> ''authenticated'') (futures client)
       \<and> settled (snd (handleErrorMessage ident json exact client auth_message)) ! g =
           (if map_of (futures client) ''authenticated'' = Some g \<and> settled client ! g = Pending
            then Rejected auth_error else settled client ! g)
       \<and> length (settled (snd (handleErrorMessage ident json exact client auth_message))) =
           length (settled client)
       \<and> subscriptions (snd (handleErrorMessage ident json exact client auth_message)) =
           (subscriptions client)(''authenticated'' := None)
       \<and> outbox (snd (handleErrorMessage ident json exact client auth_message)) = outbox client"
proof -
  have 1: "handleErrorMessage ident json exact client message = (True, reject client error None)"
    using assms(1,2) by (simp add: handleErrorMessage_def)
  have 2: "futures (snd (handleErrorMessage ident json exact client message)) = []"
    by (simp add: 1 reject_all_futures)
  have mem: "f \<in> snd ` set (futures client)"
    using assms(3) by force
  have 3: "settled (snd (handleErrorMessage ident json exact client message)) ! f = Rejected error"
    using mem assms(4,5) by (simp add: 1 reject_all_settled)
  have 4: "bingx_handleErrorMessage ident' jm exact' client (Some cd) =
           (True, reject client (TableError (fst cls) (snd cls) (ident' @ '' '' @ jm)) None)"
    using assms(6) by (simp add: bingx_handleErrorMessage_def)
  have 5: "settled (snd (bingx_handleErrorMessage ident' jm exact' client (Some cd))) ! f =
           Rejected (TableError (fst cls) (snd cls) (ident' @ '' '' @ jm))"
    using mem assms(4,5) by (simp add: 4 reject_all_settled)
  have 6: "futures (snd (handleErrorMessage ident json exact client m)) =
           (case handleErrorMessage_raises ident json exact m of
              None \<Rightarrow> futures client
            | Some e \<Rightarrow>
                if instanceof_AuthenticationError e
                then filter (\<lambda>w. fst w \<noteq> ''authenticated'') (futures client) else [])"
    by (rule handleErrorMessage_futures)
  have 7: "settled (snd (handleErrorMessage ident json exact client message)) ! g =
           (if g \<in> snd ` set (futures client) \<and> settled client ! g = Pending
            then Rejected error else settled client ! g)"
    using assms(9) by (simp only: 1 snd_conv reject_all_settled)
  have 8: "length (settled (snd (handleErrorMessage ident json exact client message))) =
           length (settled client)"
    by (simp only: 1 snd_conv reject_length)
  have 9: "subscriptions (snd (handleErrorMessage ident json exact client message)) =
           subscriptions client"
    by (simp only: 1 snd_conv reject_subscriptions)
  have 10: "outbox (snd (handleErrorMessage ident json exact client message)) = outbox client"
    by (simp only: 1 snd_conv reject_outbox)
  have a: "handleErrorMessage ident json exact client auth_message =
             (True, (reject client auth_error (Some ''authenticated''))
                \<lparr>subscriptions := (subscriptions client)(''authenticated'' := None)\<rparr>)"
    using assms(7,8) by (simp add: handleErrorMessage_def Let_def reject_subscriptions)
  have 11: "fst (handleErrorMessage ident json exact client auth_message) = True"
    by (simp add: a)
  have 12: "futures (snd (handleErrorMessage ident json exact client auth_message)) =
           filter (\<lambda>w. fst w \<noteq> ''authenticated'') (futures client)"
    by (simp add: a reject_one_futures)
  have 13: "settled (snd (handleErrorMessage ident json exact client auth_message)) ! g =
           (if map_of (futures client) ''authenticated'' = Some g \<and> settled client ! g = Pending
            then Rejected auth_error else settled client ! g)"
    using reject_one_settled [OF assms(9), of auth_error "''authenticated''"] by (simp add: a)
  have 14: "length (settled (snd (handleErrorMessage ident json exact client auth_message))) =
           length (settled client)"
    by (simp add: a reject_length)
  have 15: "subscriptions (snd (handleErrorMessage ident json exact client auth_message)) =
           (subscriptions client)(''authenticated'' := None)"
    by (simp add: a)
  have 16: "outbox (snd (handleErrorMessage ident json exact client auth_message)) = outbox client"
    by (simp add: a reject_outbox)
  show ?thesis by (intro conjI; fact)
qed

theorem handleErrorMessage_rejects_every_waiter_witness:
  "settled (snd (handleErrorMessage ''bybit'' (\<lambda>m. []) Map.empty
      (private_waiters :: orderbook client) subscribe_error)) ! 1
   = Rejected (ExchangeError ''bybit error:handler not found,topic:orderbook.50.BTCUSD'')
   \<and> settled (snd (bingx_handleErrorMessage ''bingx'' ''{code: 100400}''
        [''100400'' \<mapsto> (''BadRequest'', False)] (private_waiters :: orderbook client)
        (Some ''100400''))) ! 1
   = Rejected (TableError ''BadRequest'' False ''bingx {code: 100400}'')
   \<and> settled (snd (handleErrorMessage ''bybit'' (\<lambda>m. []) Map.empty
      (private_waiters :: orderbook client) auth_failure_with_request)) ! 0
   = Rejected (AuthenticationError ''Authentication failed: error:USVC1111'')
   \<and> settled (snd (handleErrorMessage ''bybit'' (\<lambda>m. []) Map.empty
      (private_waiters :: orderbook client) auth_failure_with_request)) ! 1
   = Pending
   \<and> futures (snd (handleErrorMessage ''bybit'' (\<lambda>m. []) Map.empty
      (private_waiters :: orderbook client) auth_failure_with_request))
   = [(''orders'', 1)]"
proof -
  have a: "handleErrorMessage_raises ''bybit'' (\<lambda>m. []) Map.empty subscribe_error =
             Some (ExchangeError ''bybit error:handler not found,topic:orderbook.50.BTCUSD'')"
    by (simp add: handleErrorMessage_raises_def subscribe_error_def safeValue_def Let_def)
  have b: "\<not> instanceof_AuthenticationError
             (ExchangeError ''bybit error:handler not found,topic:orderbook.50.BTCUSD'')"
    by simp
  have c: "(''orders'', 1) \<in> set (futures (private_waiters :: orderbook client))"
    by (simp add: private_waiters_def)
  have d: "1 < length (settled (private_waiters :: orderbook client))"
    by (simp add: private_waiters_def)
  have e: "settled (private_waiters :: orderbook client) ! 1 = Pending"
    by (simp add: private_waiters_def)
  have f: "[''100400'' \<mapsto> (''BadRequest'', False)] ''100400'' = Some (''BadRequest'', False)"
    by simp
  have g: "handleErrorMessage_raises ''bybit'' (\<lambda>m. []) Map.empty auth_failure_with_request =
             Some (AuthenticationError ''Authentication failed: error:USVC1111'')"
    by (simp add: handleErrorMessage_raises_def auth_failure_with_request_def safeValue_def
          Let_def)
  have h: "instanceof_AuthenticationError
             (AuthenticationError ''Authentication failed: error:USVC1111'')"
    by simp
  have i0: "0 < length (settled (private_waiters :: orderbook client))"
    by (simp add: private_waiters_def)
  note w1 = handleErrorMessage_rejects_every_waiter
      [where ident = "''bybit''" and json = "\<lambda>m. []" and exact = Map.empty
         and message = subscribe_error and client = "private_waiters :: orderbook client"
         and h = "''orders''" and f = 1
         and exact' = "[''100400'' \<mapsto> (''BadRequest'', False)]" and cd = "''100400''"
         and cls = "(''BadRequest'', False)" and ident' = "''bingx''"
         and jm = "''{code: 100400}''" and auth_message = auth_failure_with_request
         and auth_error = "AuthenticationError ''Authentication failed: error:USVC1111''"
         and g = 1 and m = auth_failure_with_request, OF a b c d e f g h d]
  note w0 = handleErrorMessage_rejects_every_waiter
      [where ident = "''bybit''" and json = "\<lambda>m. []" and exact = Map.empty
         and message = subscribe_error and client = "private_waiters :: orderbook client"
         and h = "''orders''" and f = 1
         and exact' = "[''100400'' \<mapsto> (''BadRequest'', False)]" and cd = "''100400''"
         and cls = "(''BadRequest'', False)" and ident' = "''bingx''"
         and jm = "''{code: 100400}''" and auth_message = auth_failure_with_request
         and auth_error = "AuthenticationError ''Authentication failed: error:USVC1111''"
         and g = 0 and m = auth_failure_with_request, OF a b c d e f g h i0]
  have 1: "settled (snd (handleErrorMessage ''bybit'' (\<lambda>m. []) Map.empty
      (private_waiters :: orderbook client) subscribe_error)) ! 1
   = Rejected (ExchangeError ''bybit error:handler not found,topic:orderbook.50.BTCUSD'')"
    using w1 [THEN conjunct2, THEN conjunct2, THEN conjunct1] by simp
  have 2: "settled (snd (bingx_handleErrorMessage ''bingx'' ''{code: 100400}''
        [''100400'' \<mapsto> (''BadRequest'', False)] (private_waiters :: orderbook client)
        (Some ''100400''))) ! 1
   = Rejected (TableError ''BadRequest'' False ''bingx {code: 100400}'')"
    using w1 [THEN conjunct2, THEN conjunct2, THEN conjunct2, THEN conjunct2, THEN conjunct1]
    by simp
  have 3: "settled (snd (handleErrorMessage ''bybit'' (\<lambda>m. []) Map.empty
      (private_waiters :: orderbook client) auth_failure_with_request)) ! 0
   = Rejected (AuthenticationError ''Authentication failed: error:USVC1111'')"
    using w0 [THEN conjunct2, THEN conjunct2, THEN conjunct2, THEN conjunct2, THEN conjunct2,
              THEN conjunct2, THEN conjunct2, THEN conjunct2, THEN conjunct2, THEN conjunct2,
              THEN conjunct2, THEN conjunct2, THEN conjunct1]
    by (simp add: private_waiters_def)
  have 4: "settled (snd (handleErrorMessage ''bybit'' (\<lambda>m. []) Map.empty
      (private_waiters :: orderbook client) auth_failure_with_request)) ! 1
   = Pending"
    using w1 [THEN conjunct2, THEN conjunct2, THEN conjunct2, THEN conjunct2, THEN conjunct2,
              THEN conjunct2, THEN conjunct2, THEN conjunct2, THEN conjunct2, THEN conjunct2,
              THEN conjunct2, THEN conjunct2, THEN conjunct1]
    by (simp add: private_waiters_def)
  have 5: "futures (snd (handleErrorMessage ''bybit'' (\<lambda>m. []) Map.empty
      (private_waiters :: orderbook client) auth_failure_with_request))
   = [(''orders'', 1)]"
    using w1 [THEN conjunct2, THEN conjunct2, THEN conjunct2, THEN conjunct2, THEN conjunct2,
              THEN conjunct2, THEN conjunct2, THEN conjunct2, THEN conjunct2, THEN conjunct2,
              THEN conjunct2, THEN conjunct1]
    by (simp add: private_waiters_def)
  show ?thesis by (intro conjI; fact)
qed

section \<open>A failed login\<close>

text \<open>
  C8 at the failing input. The connection awaits the login response, and the response
  reports the failure with \<open>op\<close> at the top level, as the acknowledgement handled by
  \<open>handleAuthenticate\<close> does. \<open>handleMessage\<close> never reaches \<open>handleAuthenticate\<close>: the error
  handler reads \<open>op\<close> from \<open>request\<close>, finds none, raises an \<open>ExchangeError\<close> and rejects
  without a hash. The pending login is rejected with an \<open>ExchangeError\<close>, the
  \<open>authenticated\<close> subscription stays, and the next call of \<open>authenticate\<close> sends no login
  frame. The same failure with \<open>request.op\<close>, and \<open>handleAuthenticate\<close> called on the
  response itself, reject with an \<open>AuthenticationError\<close> and remove the subscription.
\<close>

theorem handleMessage_auth_failure_top_level_op:
  "authenticate None example_hmac example_toString example_credentials [] 1000
     (example_client\<lparr>url := ''wss://stream.bybit.com/v5/private''\<rparr>) = Inr (0, awaiting_login)
   \<and> handleMessage ''bybit'' (\<lambda>m. ''{}'') Map.empty (\<lambda>key c m. Inr c) awaiting_login auth_failure
       = Inr (awaiting_login
               \<lparr>futures := [], settled := [Rejected (ExchangeError ''bybit Params Error'')]\<rparr>)
   \<and> subscriptions (awaiting_login
         \<lparr>futures := [], settled := [Rejected (ExchangeError ''bybit Params Error'')]\<rparr>)
         ''authenticated'' = Some True
   \<and> authenticate None example_hmac example_toString example_credentials [] 2000
       (awaiting_login
          \<lparr>futures := [], settled := [Rejected (ExchangeError ''bybit Params Error'')]\<rparr>)
       = Inr (1, awaiting_login
                   \<lparr>futures := [(''authenticated'', 1)],
                    settled := [Rejected (ExchangeError ''bybit Params Error''), Pending]\<rparr>)
   \<and> handleMessage ''bybit'' (\<lambda>m. ''{}'') Map.empty (\<lambda>key c m. Inr c) awaiting_login
         auth_failure_with_request
       = Inr (awaiting_login
               \<lparr>futures := [], subscriptions := Map.empty,
                settled := [Rejected (AuthenticationError
                                        ''Authentication failed: error:USVC1111'')]\<rparr>)
   \<and> handleAuthenticate ''bybit'' (\<lambda>m. ''{}'') awaiting_login auth_failure
       = Inr (awaiting_login
               \<lparr>futures := [], subscriptions := Map.empty,
                settled := [Rejected (AuthenticationError ''bybit {}'')]\<rparr>)"
proof -
  have 1: "authenticate None example_hmac example_toString example_credentials [] 1000
     (example_client\<lparr>url := ''wss://stream.bybit.com/v5/private''\<rparr>) = Inr (0, awaiting_login)"
    by (simp add: authenticate_def watch_def future_def example_client_def awaiting_login_def
          extend_object_def auth_request_def example_hmac_def example_toString_def
          example_credentials_def Let_def)
  have 2: "handleMessage ''bybit'' (\<lambda>m. ''{}'') Map.empty (\<lambda>key c m. Inr c) awaiting_login
             auth_failure
       = Inr (awaiting_login
               \<lparr>futures := [], settled := [Rejected (ExchangeError ''bybit Params Error'')]\<rparr>)"
    by (simp add: handleMessage_def handleErrorMessage_def handleErrorMessage_raises_def
          auth_failure_def awaiting_login_def safeValue_def reject_def settle_def Let_def)
  have 3: "subscriptions (awaiting_login
         \<lparr>futures := [], settled := [Rejected (ExchangeError ''bybit Params Error'')]\<rparr>)
         ''authenticated'' = Some True"
    by (simp add: awaiting_login_def)
  have 4: "authenticate None example_hmac example_toString example_credentials [] 2000
       (awaiting_login
          \<lparr>futures := [], settled := [Rejected (ExchangeError ''bybit Params Error'')]\<rparr>)
       = Inr (1, awaiting_login
                   \<lparr>futures := [(''authenticated'', 1)],
                    settled := [Rejected (ExchangeError ''bybit Params Error''), Pending]\<rparr>)"
    by (simp add: authenticate_def future_def awaiting_login_def Let_def)
  have 5: "handleMessage ''bybit'' (\<lambda>m. ''{}'') Map.empty (\<lambda>key c m. Inr c) awaiting_login
         auth_failure_with_request
       = Inr (awaiting_login
               \<lparr>futures := [], subscriptions := Map.empty,
                settled := [Rejected (AuthenticationError
                                        ''Authentication failed: error:USVC1111'')]\<rparr>)"
    by (simp add: handleMessage_def handleErrorMessage_def handleErrorMessage_raises_def
          auth_failure_with_request_def awaiting_login_def safeValue_def reject_def settle_def
          Let_def)
  have 6: "handleAuthenticate ''bybit'' (\<lambda>m. ''{}'') awaiting_login auth_failure
       = Inr (awaiting_login
               \<lparr>futures := [], subscriptions := Map.empty,
                settled := [Rejected (AuthenticationError ''bybit {}'')]\<rparr>)"
    by (simp add: handleAuthenticate_def handleAuthenticate_on_def auth_failure_def
          awaiting_login_def reject_def settle_def Let_def)
  show ?thesis by (intro conjI; fact)
qed

end
